theory Spec2Isabelle
  imports Complex_Main "HOL-Library.Char_ord" "HOL-Library.List_Lexorder"
    "HOL-Library.Product_Lexorder"
begin

section \<open>The relational schema read by \<open>web/lib/queries.ts\<close>\<close>

text \<open>
  Every table is a list of rows (a bag: duplicates and order are kept, as in SQL).
  A record holds the columns that the queries below read.  Integer counters are
  \<open>int\<close>, nullable columns are \<open>option\<close> (\<open>None\<close> is SQL \<open>NULL\<close>), text is
  \<open>string\<close>.  The passer rating is the only non-integral column; it is carried
  through unchanged and modelled as a rational.
\<close>

record Game =
  g_game_id :: string
  g_season :: int
  g_game_date :: string
  g_game_type :: string
  g_opponent :: string
  g_home_away :: string
  g_saints_score :: "int option"
  g_opponent_score :: "int option"
  g_result :: "string option"

record Player =
  p_player_id :: string
  p_player_name :: string
  p_pfa_url :: "string option"
  p_position :: "string option"

record PassingStats =
  pp_game_id :: string
  pp_player_id :: string
  pp_att :: int
  pp_com :: int
  pp_int_thrown :: int
  pp_yds :: int
  pp_td :: int
  pp_sacked :: int
  pp_rtg :: rat

record RushingStats =
  pr_game_id :: string
  pr_player_id :: string
  pr_att :: int
  pr_yds :: int
  pr_td :: int

record ReceivingStats =
  rec_game_id :: string
  rec_player_id :: string
  rec_rec :: int
  rec_yds :: int
  rec_td :: int

record DefenseStats =
  pd_game_id :: string
  pd_player_id :: string
  pd_tkl :: int
  pd_tfl :: int
  pd_qh :: int
  pd_pd :: int
  pd_ff :: int

record SackStats =
  ps_game_id :: string
  ps_player_id :: string
  ps_sacks :: int

record InterceptionStats =
  pi_game_id :: string
  pi_player_id :: string
  pi_int_count :: int
  pi_yds :: int
  pi_td :: int

record db =
  games :: "Game list"
  players :: "Player list"
  player_passing :: "PassingStats list"
  player_rushing :: "RushingStats list"
  player_receiving :: "ReceivingStats list"
  player_defense :: "DefenseStats list"
  player_sacks :: "SackStats list"
  player_interceptions :: "InterceptionStats list"

section \<open>The SQL operators the queries are written with\<close>

text \<open>\<open>SUM\<close> over no row is \<open>NULL\<close>.\<close>

definition sql_sum :: "int list \<Rightarrow> int option" where
  "sql_sum xs = (if xs = [] then None else Some (sum_list xs))"

text \<open>\<open>COUNT(*)\<close> and \<open>COUNT(DISTINCT x)\<close>.\<close>

definition count_star :: "'a list \<Rightarrow> int" where
  "count_star xs = int (length xs)"

definition count_distinct :: "'a list \<Rightarrow> int" where
  "count_distinct xs = int (length (remdups xs))"

text \<open>\<open>MIN\<close> and \<open>MAX\<close> as aggregates: \<open>NULL\<close> over no row.\<close>

definition sql_min :: "int list \<Rightarrow> int option" where
  "sql_min xs = (case xs of [] \<Rightarrow> None | x # ys \<Rightarrow> Some (fold min ys x))"

definition sql_max :: "int list \<Rightarrow> int option" where
  "sql_max xs = (case xs of [] \<Rightarrow> None | x # ys \<Rightarrow> Some (fold max ys x))"

text \<open>Aggregates skip \<open>NULL\<close> arguments.\<close>

definition non_null :: "'a option list \<Rightarrow> 'a list" where
  "non_null vs = concat (map (\<lambda>v. case v of None \<Rightarrow> [] | Some x \<Rightarrow> [x]) vs)"

text \<open>\<open>COALESCE(v1, ..., vn)\<close>: the first argument that is not \<open>NULL\<close>.\<close>

fun coalesce :: "'a option list \<Rightarrow> 'a option" where
  "coalesce [] = None"
| "coalesce (None # vs) = coalesce vs"
| "coalesce (Some x # vs) = Some x"

definition coalesce0 :: "int option \<Rightarrow> int" where
  "coalesce0 v = (case v of None \<Rightarrow> 0 | Some x \<Rightarrow> x)"

text \<open>\<open>xs JOIN ys ON on\<close> and \<open>xs LEFT JOIN ys ON on\<close>.\<close>

definition inner_join :: "'a list \<Rightarrow> 'b list \<Rightarrow> ('a \<Rightarrow> 'b \<Rightarrow> bool) \<Rightarrow> ('a \<times> 'b) list" where
  "inner_join xs ys on = concat (map (\<lambda>x. map (\<lambda>y. (x, y)) (filter (on x) ys)) xs)"

definition left_join :: "'a list \<Rightarrow> 'b list \<Rightarrow> ('a \<Rightarrow> 'b \<Rightarrow> bool) \<Rightarrow> ('a \<times> 'b option) list" where
  "left_join xs ys on =
     concat (map (\<lambda>x. case filter (on x) ys of
                         [] \<Rightarrow> [(x, None)]
                       | m # ms \<Rightarrow> map (\<lambda>y. (x, Some y)) (m # ms)) xs)"

text \<open>\<open>GROUP BY key\<close>: one group per distinct key, holding the rows with that key.\<close>

definition group_by :: "('a \<Rightarrow> 'k) \<Rightarrow> 'a list \<Rightarrow> ('k \<times> 'a list) list" where
  "group_by key xs = map (\<lambda>k. (k, filter (\<lambda>x. key x = k) xs)) (remdups (map key xs))"

text \<open>
  \<open>ORDER BY key\<close> and \<open>ORDER BY key DESC\<close>.  SQL leaves the order of rows with equal
  keys open; the model sorts stably, which is one of the permitted orders.
\<close>

definition order_by :: "('a \<Rightarrow> 'k::linorder) \<Rightarrow> 'a list \<Rightarrow> 'a list" where
  "order_by key xs = sort_key key xs"

definition order_by_desc :: "('a \<Rightarrow> 'k::linorder) \<Rightarrow> 'a list \<Rightarrow> 'a list" where
  "order_by_desc key xs = rev (sort_key key xs)"

definition limit :: "nat \<Rightarrow> 'a list \<Rightarrow> 'a list" where
  "limit n xs = take n xs"

text \<open>
  A select list may name a column that is neither grouped nor aggregated (a bare
  column).  The engine reads it from one row of the group, of its own choice; the model
  reads the first row.  \<open>select_grouped f\<close> gives \<open>f\<close> the group (for the aggregates)
  and that row (for the bare columns).
\<close>

definition select_grouped :: "('k \<times> 'a list \<Rightarrow> 'a \<Rightarrow> 'r) \<Rightarrow> ('k \<times> 'a list) list \<Rightarrow> 'r list" where
  "select_grouped f groups =
     concat (map (\<lambda>(k, grp). case grp of [] \<Rightarrow> [] | r # rs \<Rightarrow> [f (k, grp) r]) groups)"

text \<open>A column of the optional side of a \<open>LEFT JOIN\<close>: \<open>NULL\<close> when no row matched.\<close>

definition col :: "('r \<Rightarrow> 'v option) \<Rightarrow> 'r option \<Rightarrow> 'v option" where
  "col f r = (case r of None \<Rightarrow> None | Some x \<Rightarrow> f x)"

section \<open>Player defensive summaries\<close>

subsection \<open>\<open>getPlayerCareerDefense\<close>\<close>

record career_defense =
  cd_tkl :: int
  cd_tfl :: int
  cd_qh :: int
  cd_pd_count :: int
  cd_ff :: int
  cd_sacks :: int
  cd_int_count :: int
  cd_int_yds :: int
  cd_int_td :: int
  cd_games :: int
  cd_first_season :: "int option"
  cd_last_season :: "int option"

text \<open>
  The three sub-selects aggregate without \<open>GROUP BY\<close>, so each returns exactly one row
  (of \<open>NULL\<close>s and a zero count when the player has no row in the table).
\<close>

record def_career_agg =
  da_tkl :: "int option"
  da_tfl :: "int option"
  da_qh :: "int option"
  da_pd_count :: "int option"
  da_ff :: "int option"
  da_games :: int
  da_first_season :: "int option"
  da_last_season :: "int option"

record sk_career_agg =
  sa_sacks :: "int option"
  sa_games :: int
  sa_first_season :: "int option"
  sa_last_season :: "int option"

record it_career_agg =
  ia_int_count :: "int option"
  ia_int_yds :: "int option"
  ia_int_td :: "int option"
  ia_games :: int
  ia_first_season :: "int option"
  ia_last_season :: "int option"

definition career_def_sub :: "string \<Rightarrow> db \<Rightarrow> def_career_agg" where
  "career_def_sub playerId d =
     (let rows = filter (\<lambda>(pd, g). pd_player_id pd = playerId)
                   (inner_join (player_defense d) (games d) (\<lambda>pd g. pd_game_id pd = g_game_id g))
      in \<lparr> da_tkl = sql_sum (map (\<lambda>(pd, g). pd_tkl pd) rows),
           da_tfl = sql_sum (map (\<lambda>(pd, g). pd_tfl pd) rows),
           da_qh = sql_sum (map (\<lambda>(pd, g). pd_qh pd) rows),
           da_pd_count = sql_sum (map (\<lambda>(pd, g). pd_pd pd) rows),
           da_ff = sql_sum (map (\<lambda>(pd, g). pd_ff pd) rows),
           da_games = count_distinct (map (\<lambda>(pd, g). pd_game_id pd) rows),
           da_first_season = sql_min (map (\<lambda>(pd, g). g_season g) rows),
           da_last_season = sql_max (map (\<lambda>(pd, g). g_season g) rows) \<rparr>)"

definition career_sk_sub :: "string \<Rightarrow> db \<Rightarrow> sk_career_agg" where
  "career_sk_sub playerId d =
     (let rows = filter (\<lambda>(ps, g). ps_player_id ps = playerId)
                   (inner_join (player_sacks d) (games d) (\<lambda>ps g. ps_game_id ps = g_game_id g))
      in \<lparr> sa_sacks = sql_sum (map (\<lambda>(ps, g). ps_sacks ps) rows),
           sa_games = count_distinct (map (\<lambda>(ps, g). ps_game_id ps) rows),
           sa_first_season = sql_min (map (\<lambda>(ps, g). g_season g) rows),
           sa_last_season = sql_max (map (\<lambda>(ps, g). g_season g) rows) \<rparr>)"

definition career_it_sub :: "string \<Rightarrow> db \<Rightarrow> it_career_agg" where
  "career_it_sub playerId d =
     (let rows = filter (\<lambda>(pi, g). pi_player_id pi = playerId)
                   (inner_join (player_interceptions d) (games d) (\<lambda>pi g. pi_game_id pi = g_game_id g))
      in \<lparr> ia_int_count = sql_sum (map (\<lambda>(pi, g). pi_int_count pi) rows),
           ia_int_yds = sql_sum (map (\<lambda>(pi, g). pi_yds pi) rows),
           ia_int_td = sql_sum (map (\<lambda>(pi, g). pi_td pi) rows),
           ia_games = count_distinct (map (\<lambda>(pi, g). pi_game_id pi) rows),
           ia_first_season = sql_min (map (\<lambda>(pi, g). g_season g) rows),
           ia_last_season = sql_max (map (\<lambda>(pi, g). g_season g) rows) \<rparr>)"

text \<open>
  The outer select joins the three one-row results onto the one-row \<open>dummy\<close> with
  \<open>ON 1=1\<close>: one joined row.  Its \<open>MIN(...)\<close> and \<open>MAX(...)\<close> are aggregates over that
  single row, applied to \<open>COALESCE(def.first_season, sk.first_season, it.first_season)\<close>
  (and likewise for \<open>last_season\<close>).  \<open>queryOne\<close> returns the first row.
\<close>

definition getPlayerCareerDefense :: "string \<Rightarrow> db \<Rightarrow> career_defense option" where
  "getPlayerCareerDefense playerId d =
     (let def = career_def_sub playerId d;
          sk = career_sk_sub playerId d;
          it = career_it_sub playerId d;
          joined = [(def, sk, it)]
      in Some \<lparr> cd_tkl = coalesce0 (da_tkl def),
                cd_tfl = coalesce0 (da_tfl def),
                cd_qh = coalesce0 (da_qh def),
                cd_pd_count = coalesce0 (da_pd_count def),
                cd_ff = coalesce0 (da_ff def),
                cd_sacks = coalesce0 (sa_sacks sk),
                cd_int_count = coalesce0 (ia_int_count it),
                cd_int_yds = coalesce0 (ia_int_yds it),
                cd_int_td = coalesce0 (ia_int_td it),
                cd_games = da_games def + sa_games sk + ia_games it,
                cd_first_season =
                  sql_min (non_null (map (\<lambda>(def, sk, it).
                     coalesce [da_first_season def, sa_first_season sk, ia_first_season it]) joined)),
                cd_last_season =
                  sql_max (non_null (map (\<lambda>(def, sk, it).
                     coalesce [da_last_season def, sa_last_season sk, ia_last_season it]) joined)) \<rparr>)"

subsection \<open>\<open>getCareerDefensiveLeaders\<close>\<close>

record career_def_leader =
  cl_player_id :: string
  cl_player_name :: string
  cl_tkl :: int
  cl_tfl :: int
  cl_qh :: int
  cl_pd_count :: int
  cl_ff :: int
  cl_sacks :: int
  cl_int_count :: int
  cl_games :: int

record def_agg =
  dg_player_id :: string
  dg_tkl :: "int option"
  dg_tfl :: "int option"
  dg_qh :: "int option"
  dg_pd_count :: "int option"
  dg_ff :: "int option"
  dg_games :: "int option"

record sk_agg =
  sg_player_id :: string
  sg_sacks :: "int option"
  sg_games :: "int option"

record it_agg =
  ig_player_id :: string
  ig_int_count :: "int option"
  ig_games :: "int option"

text \<open>The universe \<open>all_def\<close>: the \<open>UNION\<close> (duplicates removed) of the three id columns.\<close>

definition all_def :: "db \<Rightarrow> string list" where
  "all_def d = remdups (map pd_player_id (player_defense d) @ map ps_player_id (player_sacks d)
                         @ map pi_player_id (player_interceptions d))"

definition regular_defense :: "db \<Rightarrow> (DefenseStats \<times> Game) list" where
  "regular_defense d = filter (\<lambda>(pd, g). g_game_type g = ''regular'')
     (inner_join (player_defense d) (games d) (\<lambda>pd g. pd_game_id pd = g_game_id g))"

definition regular_sacks :: "db \<Rightarrow> (SackStats \<times> Game) list" where
  "regular_sacks d = filter (\<lambda>(ps, g). g_game_type g = ''regular'')
     (inner_join (player_sacks d) (games d) (\<lambda>ps g. ps_game_id ps = g_game_id g))"

definition regular_interceptions :: "db \<Rightarrow> (InterceptionStats \<times> Game) list" where
  "regular_interceptions d = filter (\<lambda>(pi, g). g_game_type g = ''regular'')
     (inner_join (player_interceptions d) (games d) (\<lambda>pi g. pi_game_id pi = g_game_id g))"

definition def_of_group :: "string \<times> (DefenseStats \<times> Game) list \<Rightarrow> def_agg" where
  "def_of_group = (\<lambda>(pid, rows).
     \<lparr> dg_player_id = pid,
       dg_tkl = sql_sum (map (\<lambda>(pd, g). pd_tkl pd) rows),
       dg_tfl = sql_sum (map (\<lambda>(pd, g). pd_tfl pd) rows),
       dg_qh = sql_sum (map (\<lambda>(pd, g). pd_qh pd) rows),
       dg_pd_count = sql_sum (map (\<lambda>(pd, g). pd_pd pd) rows),
       dg_ff = sql_sum (map (\<lambda>(pd, g). pd_ff pd) rows),
       dg_games = Some (count_distinct (map (\<lambda>(pd, g). pd_game_id pd) rows)) \<rparr>)"

definition sk_of_group :: "string \<times> (SackStats \<times> Game) list \<Rightarrow> sk_agg" where
  "sk_of_group = (\<lambda>(pid, rows).
     \<lparr> sg_player_id = pid,
       sg_sacks = sql_sum (map (\<lambda>(ps, g). ps_sacks ps) rows),
       sg_games = Some (count_distinct (map (\<lambda>(ps, g). ps_game_id ps) rows)) \<rparr>)"

definition it_of_group :: "string \<times> (InterceptionStats \<times> Game) list \<Rightarrow> it_agg" where
  "it_of_group = (\<lambda>(pid, rows).
     \<lparr> ig_player_id = pid,
       ig_int_count = sql_sum (map (\<lambda>(pi, g). pi_int_count pi) rows),
       ig_games = Some (count_distinct (map (\<lambda>(pi, g). pi_game_id pi) rows)) \<rparr>)"

definition def_by_player :: "db \<Rightarrow> def_agg list" where
  "def_by_player d = map def_of_group (group_by (\<lambda>(pd, g). pd_player_id pd) (regular_defense d))"

definition sk_by_player :: "db \<Rightarrow> sk_agg list" where
  "sk_by_player d = map sk_of_group (group_by (\<lambda>(ps, g). ps_player_id ps) (regular_sacks d))"

definition it_by_player :: "db \<Rightarrow> it_agg list" where
  "it_by_player d = map it_of_group (group_by (\<lambda>(pi, g). pi_player_id pi) (regular_interceptions d))"

definition career_def_leader_row ::
    "(((string \<times> Player) \<times> def_agg option) \<times> sk_agg option) \<times> it_agg option \<Rightarrow> career_def_leader" where
  "career_def_leader_row = (\<lambda>((((a, p), def), sk), it).
     \<lparr> cl_player_id = p_player_id p,
       cl_player_name = p_player_name p,
       cl_tkl = coalesce0 (col dg_tkl def),
       cl_tfl = coalesce0 (col dg_tfl def),
       cl_qh = coalesce0 (col dg_qh def),
       cl_pd_count = coalesce0 (col dg_pd_count def),
       cl_ff = coalesce0 (col dg_ff def),
       cl_sacks = coalesce0 (col sg_sacks sk),
       cl_int_count = coalesce0 (col ig_int_count it),
       cl_games = coalesce0 (col dg_games def) + coalesce0 (col sg_games sk)
                    + coalesce0 (col ig_games it) \<rparr>)"

text \<open>The rows of the leaderboard before \<open>ORDER BY\<close> and \<open>LIMIT\<close>.\<close>

definition career_def_joined ::
    "db \<Rightarrow> ((((string \<times> Player) \<times> def_agg option) \<times> sk_agg option) \<times> it_agg option) list" where
  "career_def_joined d =
     left_join
       (left_join
          (left_join
             (inner_join (all_def d) (players d) (\<lambda>a p. a = p_player_id p))
             (def_by_player d) (\<lambda>(a, p) def. dg_player_id def = a))
          (sk_by_player d) (\<lambda>((a, p), def) sk. sg_player_id sk = a))
       (it_by_player d) (\<lambda>(((a, p), def), sk) it. ig_player_id it = a)"

definition career_def_universe :: "db \<Rightarrow> career_def_leader list" where
  "career_def_universe d =
     map career_def_leader_row
       (filter (\<lambda>((((a, p), def), sk), it). p_pfa_url p \<noteq> None) (career_def_joined d))"

definition getCareerDefensiveLeaders :: "nat \<Rightarrow> db \<Rightarrow> career_def_leader list" where
  "getCareerDefensiveLeaders lmt d = limit lmt (order_by_desc cl_sacks (career_def_universe d))"

subsection \<open>\<open>getPlayerSeasonDefense\<close>\<close>

text \<open>
  A row of \<open>combined\<close>, the \<open>UNION ALL\<close> of the three per-season partial sums.  The
  row type is shared with \<open>getSeasonDefensiveRecords\<close>, whose partial sums carry the
  player id as a column; here the player is the argument of the query.
\<close>

record season_part =
  sp_player_id :: string
  sp_season :: int
  sp_tkl :: "int option"
  sp_tfl :: "int option"
  sp_qh :: "int option"
  sp_pd_count :: "int option"
  sp_ff :: "int option"
  sp_sacks :: "int option"
  sp_int_count :: "int option"
  sp_games :: int

record player_season_defense =
  sd_season :: int
  sd_tkl :: "int option"
  sd_tfl :: "int option"
  sd_qh :: "int option"
  sd_pd_count :: "int option"
  sd_ff :: "int option"
  sd_sacks :: "int option"
  sd_int_count :: "int option"
  sd_games :: "int option"

definition def_part :: "string \<Rightarrow> int \<Rightarrow> (DefenseStats \<times> Game) list \<Rightarrow> season_part" where
  "def_part pid s rows =
     \<lparr> sp_player_id = pid, sp_season = s,
       sp_tkl = sql_sum (map (\<lambda>(pd, g). pd_tkl pd) rows),
       sp_tfl = sql_sum (map (\<lambda>(pd, g). pd_tfl pd) rows),
       sp_qh = sql_sum (map (\<lambda>(pd, g). pd_qh pd) rows),
       sp_pd_count = sql_sum (map (\<lambda>(pd, g). pd_pd pd) rows),
       sp_ff = sql_sum (map (\<lambda>(pd, g). pd_ff pd) rows),
       sp_sacks = Some 0, sp_int_count = Some 0,
       sp_games = count_distinct (map (\<lambda>(pd, g). pd_game_id pd) rows) \<rparr>"

definition sack_part :: "string \<Rightarrow> int \<Rightarrow> (SackStats \<times> Game) list \<Rightarrow> season_part" where
  "sack_part pid s rows =
     \<lparr> sp_player_id = pid, sp_season = s,
       sp_tkl = Some 0, sp_tfl = Some 0, sp_qh = Some 0, sp_pd_count = Some 0, sp_ff = Some 0,
       sp_sacks = sql_sum (map (\<lambda>(ps, g). ps_sacks ps) rows), sp_int_count = Some 0,
       sp_games = count_distinct (map (\<lambda>(ps, g). ps_game_id ps) rows) \<rparr>"

definition int_part :: "string \<Rightarrow> int \<Rightarrow> (InterceptionStats \<times> Game) list \<Rightarrow> season_part" where
  "int_part pid s rows =
     \<lparr> sp_player_id = pid, sp_season = s,
       sp_tkl = Some 0, sp_tfl = Some 0, sp_qh = Some 0, sp_pd_count = Some 0, sp_ff = Some 0,
       sp_sacks = Some 0, sp_int_count = sql_sum (map (\<lambda>(pi, g). pi_int_count pi) rows),
       sp_games = count_distinct (map (\<lambda>(pi, g). pi_game_id pi) rows) \<rparr>"

definition player_season_combined :: "string \<Rightarrow> db \<Rightarrow> season_part list" where
  "player_season_combined playerId d =
     map (\<lambda>(s, rows). def_part playerId s rows)
       (group_by (\<lambda>(pd, g). g_season g)
          (filter (\<lambda>(pd, g). pd_player_id pd = playerId)
             (inner_join (player_defense d) (games d) (\<lambda>pd g. pd_game_id pd = g_game_id g))))
     @ map (\<lambda>(s, rows). sack_part playerId s rows)
       (group_by (\<lambda>(ps, g). g_season g)
          (filter (\<lambda>(ps, g). ps_player_id ps = playerId)
             (inner_join (player_sacks d) (games d) (\<lambda>ps g. ps_game_id ps = g_game_id g))))
     @ map (\<lambda>(s, rows). int_part playerId s rows)
       (group_by (\<lambda>(pi, g). g_season g)
          (filter (\<lambda>(pi, g). pi_player_id pi = playerId)
             (inner_join (player_interceptions d) (games d) (\<lambda>pi g. pi_game_id pi = g_game_id g))))"

definition season_defense_of_group :: "int \<times> season_part list \<Rightarrow> player_season_defense" where
  "season_defense_of_group = (\<lambda>(s, rows).
     \<lparr> sd_season = s,
       sd_tkl = sql_sum (non_null (map sp_tkl rows)),
       sd_tfl = sql_sum (non_null (map sp_tfl rows)),
       sd_qh = sql_sum (non_null (map sp_qh rows)),
       sd_pd_count = sql_sum (non_null (map sp_pd_count rows)),
       sd_ff = sql_sum (non_null (map sp_ff rows)),
       sd_sacks = sql_sum (non_null (map sp_sacks rows)),
       sd_int_count = sql_sum (non_null (map sp_int_count rows)),
       sd_games = sql_max (map sp_games rows) \<rparr>)"

definition getPlayerSeasonDefense :: "string \<Rightarrow> db \<Rightarrow> player_season_defense list" where
  "getPlayerSeasonDefense playerId d =
     order_by sd_season
       (map season_defense_of_group (group_by sp_season (player_season_combined playerId d)))"

subsection \<open>\<open>getSeasonDefensiveRecords\<close>\<close>

record season_def_record =
  sr_player_id :: string
  sr_player_name :: string
  sr_season :: int
  sr_tkl :: int
  sr_tfl :: int
  sr_qh :: int
  sr_pd_count :: int
  sr_ff :: int
  sr_sacks :: int
  sr_int_count :: int
  sr_games :: int

definition season_combined :: "db \<Rightarrow> season_part list" where
  "season_combined d =
     map (\<lambda>((pid, s), rows). def_part pid s rows)
       (group_by (\<lambda>(pd, g). (pd_player_id pd, g_season g)) (regular_defense d))
     @ map (\<lambda>((pid, s), rows). sack_part pid s rows)
       (group_by (\<lambda>(ps, g). (ps_player_id ps, g_season g)) (regular_sacks d))
     @ map (\<lambda>((pid, s), rows). int_part pid s rows)
       (group_by (\<lambda>(pi, g). (pi_player_id pi, g_season g)) (regular_interceptions d))"

text \<open>
  The outer select groups by \<open>(combined.player_id, season)\<close> and lists every statistic
  as a bare column (\<open>COALESCE(tkl, 0)\<close>, \<open>games\<close>: no \<open>SUM\<close>, no \<open>MAX\<close>).
\<close>

definition season_def_record_row :: "season_part \<times> Player \<Rightarrow> season_def_record" where
  "season_def_record_row = (\<lambda>(c, p).
     \<lparr> sr_player_id = p_player_id p, sr_player_name = p_player_name p,
       sr_season = sp_season c,
       sr_tkl = coalesce0 (sp_tkl c), sr_tfl = coalesce0 (sp_tfl c),
       sr_qh = coalesce0 (sp_qh c), sr_pd_count = coalesce0 (sp_pd_count c),
       sr_ff = coalesce0 (sp_ff c), sr_sacks = coalesce0 (sp_sacks c),
       sr_int_count = coalesce0 (sp_int_count c), sr_games = sp_games c \<rparr>)"

definition season_def_groups :: "db \<Rightarrow> ((string \<times> int) \<times> (season_part \<times> Player) list) list" where
  "season_def_groups d =
     group_by (\<lambda>(c, p). (sp_player_id c, sp_season c))
       (filter (\<lambda>(c, p). p_pfa_url p \<noteq> None)
          (inner_join (season_combined d) (players d) (\<lambda>c p. sp_player_id c = p_player_id p)))"

definition getSeasonDefensiveRecords :: "nat \<Rightarrow> db \<Rightarrow> season_def_record list" where
  "getSeasonDefensiveRecords lmt d =
     limit lmt (order_by_desc sr_sacks
       (select_grouped (\<lambda>grp r. season_def_record_row r) (season_def_groups d)))"

section \<open>Passing, rushing and receiving aggregates\<close>

text \<open>
  Inside a group an aggregate ranges over at least one row, and the interfaces declare
  the counters as numbers, so a grouped \<open>SUM\<close> is a number: \<open>sum_list\<close>.  An aggregate
  without \<open>GROUP BY\<close> can range over no row and is \<open>sql_sum\<close>.
\<close>

definition passing_joined :: "db \<Rightarrow> ((PassingStats \<times> Player) \<times> Game) list" where
  "passing_joined d =
     inner_join (inner_join (player_passing d) (players d) (\<lambda>pp p. pp_player_id pp = p_player_id p))
       (games d) (\<lambda>(pp, p) g. pp_game_id pp = g_game_id g)"

definition rushing_joined :: "db \<Rightarrow> ((RushingStats \<times> Player) \<times> Game) list" where
  "rushing_joined d =
     inner_join (inner_join (player_rushing d) (players d) (\<lambda>pr p. pr_player_id pr = p_player_id p))
       (games d) (\<lambda>(pr, p) g. pr_game_id pr = g_game_id g)"

definition receiving_joined :: "db \<Rightarrow> ((ReceivingStats \<times> Player) \<times> Game) list" where
  "receiving_joined d =
     inner_join (inner_join (player_receiving d) (players d) (\<lambda>pr p. rec_player_id pr = p_player_id p))
       (games d) (\<lambda>(pr, p) g. rec_game_id pr = g_game_id g)"

definition regular_recognized :: "('a \<times> Player) \<times> Game \<Rightarrow> bool" where
  "regular_recognized = (\<lambda>((x, p), g). g_game_type g = ''regular'' \<and> p_pfa_url p \<noteq> None)"

subsection \<open>Passing\<close>

record passing_leader =
  pl_player_id :: string
  pl_player_name :: string
  pl_yds :: int
  pl_td :: int
  pl_int_thrown :: int
  pl_com :: int
  pl_att :: int
  pl_games :: int

record passing_season_record = passing_leader +
  pl_season :: int

record passing_game_leader =
  pg_player_id :: string
  pg_player_name :: string
  pg_yds :: int
  pg_td :: int
  pg_com :: int
  pg_att :: int
  pg_int_thrown :: int
  pg_rtg :: rat
  pg_game_date :: string
  pg_opponent :: string
  pg_season :: int

record career_passing =
  cp_att :: "int option"
  cp_com :: "int option"
  cp_yds :: "int option"
  cp_td :: "int option"
  cp_int_thrown :: "int option"
  cp_sacked :: "int option"
  cp_games :: int
  cp_first_season :: "int option"
  cp_last_season :: "int option"

text \<open>\<open>getSeasonPassingLeaders\<close>: the season page's top five; \<open>COUNT(*) as games\<close>.\<close>

definition getSeasonPassingLeaders :: "int \<Rightarrow> db \<Rightarrow> passing_leader list" where
  "getSeasonPassingLeaders year d =
     limit 5 (order_by_desc pl_yds
       (select_grouped (\<lambda>(k, grp) ((pp, p), g).
            \<lparr> pl_player_id = p_player_id p, pl_player_name = p_player_name p,
              pl_yds = sum_list (map (\<lambda>((pp, p), g). pp_yds pp) grp),
              pl_td = sum_list (map (\<lambda>((pp, p), g). pp_td pp) grp),
              pl_int_thrown = sum_list (map (\<lambda>((pp, p), g). pp_int_thrown pp) grp),
              pl_com = sum_list (map (\<lambda>((pp, p), g). pp_com pp) grp),
              pl_att = sum_list (map (\<lambda>((pp, p), g). pp_att pp) grp),
              pl_games = count_star grp \<rparr>)
          (group_by (\<lambda>((pp, p), g). pp_player_id pp)
             (filter (\<lambda>((pp, p), g). g_season g = year \<and> g_game_type g = ''regular''
                                      \<and> p_pfa_url p \<noteq> None)
                (passing_joined d)))))"

text \<open>\<open>getPlayerCareerPassing\<close>: one row always (an aggregate without \<open>GROUP BY\<close>).\<close>

definition getPlayerCareerPassing :: "string \<Rightarrow> db \<Rightarrow> career_passing option" where
  "getPlayerCareerPassing playerId d =
     (let rows = filter (\<lambda>(pp, g). pp_player_id pp = playerId)
                   (inner_join (player_passing d) (games d) (\<lambda>pp g. pp_game_id pp = g_game_id g))
      in Some \<lparr> cp_att = sql_sum (map (\<lambda>(pp, g). pp_att pp) rows),
                cp_com = sql_sum (map (\<lambda>(pp, g). pp_com pp) rows),
                cp_yds = sql_sum (map (\<lambda>(pp, g). pp_yds pp) rows),
                cp_td = sql_sum (map (\<lambda>(pp, g). pp_td pp) rows),
                cp_int_thrown = sql_sum (map (\<lambda>(pp, g). pp_int_thrown pp) rows),
                cp_sacked = sql_sum (map (\<lambda>(pp, g). pp_sacked pp) rows),
                cp_games = count_distinct (map (\<lambda>(pp, g). pp_game_id pp) rows),
                cp_first_season = sql_min (map (\<lambda>(pp, g). g_season g) rows),
                cp_last_season = sql_max (map (\<lambda>(pp, g). g_season g) rows) \<rparr>)"

definition getCareerPassingLeaders :: "nat \<Rightarrow> db \<Rightarrow> passing_leader list" where
  "getCareerPassingLeaders lmt d =
     limit lmt (order_by_desc pl_yds
       (select_grouped (\<lambda>(k, grp) ((pp, p), g).
            \<lparr> pl_player_id = p_player_id p, pl_player_name = p_player_name p,
              pl_yds = sum_list (map (\<lambda>((pp, p), g). pp_yds pp) grp),
              pl_td = sum_list (map (\<lambda>((pp, p), g). pp_td pp) grp),
              pl_int_thrown = sum_list (map (\<lambda>((pp, p), g). pp_int_thrown pp) grp),
              pl_com = sum_list (map (\<lambda>((pp, p), g). pp_com pp) grp),
              pl_att = sum_list (map (\<lambda>((pp, p), g). pp_att pp) grp),
              pl_games = count_distinct (map (\<lambda>((pp, p), g). pp_game_id pp) grp) \<rparr>)
          (group_by (\<lambda>((pp, p), g). pp_player_id pp)
             (filter regular_recognized (passing_joined d)))))"

definition getSeasonPassingRecords :: "nat \<Rightarrow> db \<Rightarrow> passing_season_record list" where
  "getSeasonPassingRecords lmt d =
     limit lmt (order_by_desc pl_yds
       (select_grouped (\<lambda>(k, grp) ((pp, p), g).
            \<lparr> pl_player_id = p_player_id p, pl_player_name = p_player_name p,
              pl_yds = sum_list (map (\<lambda>((pp, p), g). pp_yds pp) grp),
              pl_td = sum_list (map (\<lambda>((pp, p), g). pp_td pp) grp),
              pl_int_thrown = sum_list (map (\<lambda>((pp, p), g). pp_int_thrown pp) grp),
              pl_com = sum_list (map (\<lambda>((pp, p), g). pp_com pp) grp),
              pl_att = sum_list (map (\<lambda>((pp, p), g). pp_att pp) grp),
              pl_games = count_distinct (map (\<lambda>((pp, p), g). pp_game_id pp) grp),
              pl_season = g_season g \<rparr>)
          (group_by (\<lambda>((pp, p), g). (pp_player_id pp, g_season g))
             (filter regular_recognized (passing_joined d)))))"

definition getSingleGamePassingLeaders :: "nat \<Rightarrow> db \<Rightarrow> passing_game_leader list" where
  "getSingleGamePassingLeaders lmt d =
     limit lmt (order_by_desc pg_yds
       (map (\<lambda>((pp, p), g).
            \<lparr> pg_player_id = p_player_id p, pg_player_name = p_player_name p,
              pg_yds = pp_yds pp, pg_td = pp_td pp, pg_com = pp_com pp, pg_att = pp_att pp,
              pg_int_thrown = pp_int_thrown pp, pg_rtg = pp_rtg pp,
              pg_game_date = g_game_date g, pg_opponent = g_opponent g,
              pg_season = g_season g \<rparr>)
          (filter regular_recognized (passing_joined d))))"

subsection \<open>Rushing\<close>

record rushing_leader =
  rl_player_id :: string
  rl_player_name :: string
  rl_yds :: int
  rl_td :: int
  rl_att :: int
  rl_games :: int

record rushing_season_record = rushing_leader +
  rl_season :: int

record rushing_game_leader =
  rg_player_id :: string
  rg_player_name :: string
  rg_yds :: int
  rg_td :: int
  rg_att :: int
  rg_game_date :: string
  rg_opponent :: string
  rg_season :: int

definition getCareerRushingLeaders :: "nat \<Rightarrow> db \<Rightarrow> rushing_leader list" where
  "getCareerRushingLeaders lmt d =
     limit lmt (order_by_desc rl_yds
       (select_grouped (\<lambda>(k, grp) ((pr, p), g).
            \<lparr> rl_player_id = p_player_id p, rl_player_name = p_player_name p,
              rl_yds = sum_list (map (\<lambda>((pr, p), g). pr_yds pr) grp),
              rl_td = sum_list (map (\<lambda>((pr, p), g). pr_td pr) grp),
              rl_att = sum_list (map (\<lambda>((pr, p), g). pr_att pr) grp),
              rl_games = count_distinct (map (\<lambda>((pr, p), g). pr_game_id pr) grp) \<rparr>)
          (group_by (\<lambda>((pr, p), g). pr_player_id pr)
             (filter regular_recognized (rushing_joined d)))))"

definition getSeasonRushingRecords :: "nat \<Rightarrow> db \<Rightarrow> rushing_season_record list" where
  "getSeasonRushingRecords lmt d =
     limit lmt (order_by_desc rl_yds
       (select_grouped (\<lambda>(k, grp) ((pr, p), g).
            \<lparr> rl_player_id = p_player_id p, rl_player_name = p_player_name p,
              rl_yds = sum_list (map (\<lambda>((pr, p), g). pr_yds pr) grp),
              rl_td = sum_list (map (\<lambda>((pr, p), g). pr_td pr) grp),
              rl_att = sum_list (map (\<lambda>((pr, p), g). pr_att pr) grp),
              rl_games = count_distinct (map (\<lambda>((pr, p), g). pr_game_id pr) grp),
              rl_season = g_season g \<rparr>)
          (group_by (\<lambda>((pr, p), g). (pr_player_id pr, g_season g))
             (filter regular_recognized (rushing_joined d)))))"

definition getSingleGameRushingLeaders :: "nat \<Rightarrow> db \<Rightarrow> rushing_game_leader list" where
  "getSingleGameRushingLeaders lmt d =
     limit lmt (order_by_desc rg_yds
       (map (\<lambda>((pr, p), g).
            \<lparr> rg_player_id = p_player_id p, rg_player_name = p_player_name p,
              rg_yds = pr_yds pr, rg_td = pr_td pr, rg_att = pr_att pr,
              rg_game_date = g_game_date g, rg_opponent = g_opponent g,
              rg_season = g_season g \<rparr>)
          (filter regular_recognized (rushing_joined d))))"

subsection \<open>Receiving\<close>

record receiving_leader =
  vl_player_id :: string
  vl_player_name :: string
  vl_yds :: int
  vl_td :: int
  vl_rec :: int
  vl_games :: int

record receiving_season_record = receiving_leader +
  vl_season :: int

record receiving_game_leader =
  vg_player_id :: string
  vg_player_name :: string
  vg_yds :: int
  vg_td :: int
  vg_rec :: int
  vg_game_date :: string
  vg_opponent :: string
  vg_season :: int

definition getCareerReceivingLeaders :: "nat \<Rightarrow> db \<Rightarrow> receiving_leader list" where
  "getCareerReceivingLeaders lmt d =
     limit lmt (order_by_desc vl_yds
       (select_grouped (\<lambda>(k, grp) ((pr, p), g).
            \<lparr> vl_player_id = p_player_id p, vl_player_name = p_player_name p,
              vl_yds = sum_list (map (\<lambda>((pr, p), g). rec_yds pr) grp),
              vl_td = sum_list (map (\<lambda>((pr, p), g). rec_td pr) grp),
              vl_rec = sum_list (map (\<lambda>((pr, p), g). rec_rec pr) grp),
              vl_games = count_distinct (map (\<lambda>((pr, p), g). rec_game_id pr) grp) \<rparr>)
          (group_by (\<lambda>((pr, p), g). rec_player_id pr)
             (filter regular_recognized (receiving_joined d)))))"

definition getSeasonReceivingRecords :: "nat \<Rightarrow> db \<Rightarrow> receiving_season_record list" where
  "getSeasonReceivingRecords lmt d =
     limit lmt (order_by_desc vl_yds
       (select_grouped (\<lambda>(k, grp) ((pr, p), g).
            \<lparr> vl_player_id = p_player_id p, vl_player_name = p_player_name p,
              vl_yds = sum_list (map (\<lambda>((pr, p), g). rec_yds pr) grp),
              vl_td = sum_list (map (\<lambda>((pr, p), g). rec_td pr) grp),
              vl_rec = sum_list (map (\<lambda>((pr, p), g). rec_rec pr) grp),
              vl_games = count_distinct (map (\<lambda>((pr, p), g). rec_game_id pr) grp),
              vl_season = g_season g \<rparr>)
          (group_by (\<lambda>((pr, p), g). (rec_player_id pr, g_season g))
             (filter regular_recognized (receiving_joined d)))))"

definition getSingleGameReceivingLeaders :: "nat \<Rightarrow> db \<Rightarrow> receiving_game_leader list" where
  "getSingleGameReceivingLeaders lmt d =
     limit lmt (order_by_desc vg_yds
       (map (\<lambda>((pr, p), g).
            \<lparr> vg_player_id = p_player_id p, vg_player_name = p_player_name p,
              vg_yds = rec_yds pr, vg_td = rec_td pr, vg_rec = rec_rec pr,
              vg_game_date = g_game_date g, vg_opponent = g_opponent g,
              vg_season = g_season g \<rparr>)
          (filter regular_recognized (receiving_joined d))))"

section \<open>Single-game defensive leaders\<close>

text \<open>
  The data-store client (\<open>./db\<close>) is not part of the sources, so the place of \<open>NULL\<close>
  in an \<open>ORDER BY\<close> is a parameter: \<open>nulls_low = True\<close> sorts \<open>NULL\<close> below every
  value (SQLite, MySQL), \<open>nulls_low = False\<close> above every value (PostgreSQL, Oracle).
\<close>

definition null_key :: "bool \<Rightarrow> int option \<Rightarrow> nat \<times> int" where
  "null_key nulls_low v =
     (case v of None \<Rightarrow> (if nulls_low then 0 else 2, 0) | Some x \<Rightarrow> (1, x))"

record defense_game_leader =
  dl_player_id :: string
  dl_player_name :: string
  dl_tkl :: int
  dl_tfl :: int
  dl_qh :: int
  dl_pd_count :: int
  dl_ff :: int
  dl_sacks :: int
  dl_int_count :: int
  dl_game_date :: string
  dl_opponent :: string
  dl_season :: int

definition all_gp :: "db \<Rightarrow> (string \<times> string) list" where
  "all_gp d = remdups (map (\<lambda>r. (pd_game_id r, pd_player_id r)) (player_defense d)
                        @ map (\<lambda>r. (ps_game_id r, ps_player_id r)) (player_sacks d)
                        @ map (\<lambda>r. (pi_game_id r, pi_player_id r)) (player_interceptions d))"

definition getSingleGameDefensiveLeaders :: "bool \<Rightarrow> nat \<Rightarrow> db \<Rightarrow> defense_game_leader list" where
  "getSingleGameDefensiveLeaders nulls_low lmt d =
     limit lmt
       (map (\<lambda>(((((gp, p), g), pd), sk), it).
            \<lparr> dl_player_id = p_player_id p, dl_player_name = p_player_name p,
              dl_tkl = coalesce0 (map_option pd_tkl pd),
              dl_tfl = coalesce0 (map_option pd_tfl pd),
              dl_qh = coalesce0 (map_option pd_qh pd),
              dl_pd_count = coalesce0 (map_option pd_pd pd),
              dl_ff = coalesce0 (map_option pd_ff pd),
              dl_sacks = coalesce0 (map_option ps_sacks sk),
              dl_int_count = coalesce0 (map_option pi_int_count it),
              dl_game_date = g_game_date g, dl_opponent = g_opponent g,
              dl_season = g_season g \<rparr>)
          (order_by_desc (\<lambda>(((((gp, p), g), pd), sk), it).
               (coalesce0 (map_option ps_sacks sk), null_key nulls_low (map_option pi_int_count it)))
             (filter (\<lambda>(((((gp, p), g), pd), sk), it).
                  g_game_type g = ''regular'' \<and> p_pfa_url p \<noteq> None)
                (left_join
                   (left_join
                      (left_join
                         (inner_join
                            (inner_join (all_gp d) (players d) (\<lambda>(gid, pid) p. pid = p_player_id p))
                            (games d) (\<lambda>((gid, pid), p) g. gid = g_game_id g))
                         (player_defense d)
                         (\<lambda>(((gid, pid), p), g) pd. pd_player_id pd = pid \<and> pd_game_id pd = gid))
                      (player_sacks d)
                      (\<lambda>((((gid, pid), p), g), pd) sk. ps_player_id sk = pid \<and> ps_game_id sk = gid))
                   (player_interceptions d)
                   (\<lambda>(((((gid, pid), p), g), pd), sk) it.
                      pi_player_id it = pid \<and> pi_game_id it = gid)))))"

section \<open>Game log\<close>

record game_log_row =
  gl_game_id :: string
  gl_season :: int
  gl_game_date :: string
  gl_opponent :: string
  gl_home_away :: string
  gl_saints_score :: "int option"
  gl_opponent_score :: "int option"
  gl_result :: "string option"
  gl_game_type :: string
  gl_pass_att :: "int option"
  gl_pass_com :: "int option"
  gl_pass_yds :: "int option"
  gl_pass_td :: "int option"
  gl_pass_int :: "int option"
  gl_pass_rtg :: "rat option"
  gl_rush_att :: "int option"
  gl_rush_yds :: "int option"
  gl_rush_td :: "int option"
  gl_rec :: "int option"
  gl_rec_yds :: "int option"
  gl_rec_td :: "int option"




definition game_log_row_of ::
    "((Game \<times> PassingStats option) \<times> RushingStats option) \<times> ReceivingStats option \<Rightarrow> game_log_row" where
  "game_log_row_of = (\<lambda>(((g, pp), pr), rec).
     \<lparr> gl_game_id = g_game_id g, gl_season = g_season g, gl_game_date = g_game_date g,
       gl_opponent = g_opponent g, gl_home_away = g_home_away g,
       gl_saints_score = g_saints_score g, gl_opponent_score = g_opponent_score g,
       gl_result = g_result g, gl_game_type = g_game_type g,
       gl_pass_att = map_option pp_att pp, gl_pass_com = map_option pp_com pp,
       gl_pass_yds = map_option pp_yds pp, gl_pass_td = map_option pp_td pp,
       gl_pass_int = map_option pp_int_thrown pp, gl_pass_rtg = map_option pp_rtg pp,
       gl_rush_att = map_option pr_att pr, gl_rush_yds = map_option pr_yds pr,
       gl_rush_td = map_option pr_td pr,
       gl_rec = map_option rec_rec rec, gl_rec_yds = map_option rec_yds rec,
       gl_rec_td = map_option rec_td rec \<rparr>)"


section \<open>Player directory\<close>

text \<open>
  \<open>LIKE\<close>: \<open>%\<close> stands for any run of characters, \<open>_\<close> for any one character, and
  letters of the ASCII range compare without case.
\<close>

definition ascii_lower :: "char \<Rightarrow> char" where
  "ascii_lower c = (if CHR ''A'' \<le> c \<and> c \<le> CHR ''Z'' then char_of (of_char c + (32::nat)) else c)"

fun like :: "string \<Rightarrow> string \<Rightarrow> bool" where
  "like [] s = (s = [])"
| "like (c # pat) [] = (c = CHR ''%'' \<and> like pat [])"
| "like (c # pat) (x # s) =
     (if c = CHR ''%'' then like pat (x # s) \<or> like (c # pat) s
      else if c = CHR ''_'' then like pat s
      else ascii_lower c = ascii_lower x \<and> like pat s)"

record player_hit =
  ph_player_id :: string
  ph_player_name :: string
  ph_position :: "string option"
  ph_first_season :: "int option"
  ph_last_season :: "int option"

definition passing_seasons :: "string \<Rightarrow> db \<Rightarrow> int list" where
  "passing_seasons pid d = map (\<lambda>(pp, g). g_season g)
     (filter (\<lambda>(pp, g). pp_player_id pp = pid)
        (inner_join (player_passing d) (games d) (\<lambda>pp g. pp_game_id pp = g_game_id g)))"

definition rushing_seasons :: "string \<Rightarrow> db \<Rightarrow> int list" where
  "rushing_seasons pid d = map (\<lambda>(pr, g). g_season g)
     (filter (\<lambda>(pr, g). pr_player_id pr = pid)
        (inner_join (player_rushing d) (games d) (\<lambda>pr g. pr_game_id pr = g_game_id g)))"

definition receiving_seasons :: "string \<Rightarrow> db \<Rightarrow> int list" where
  "receiving_seasons pid d = map (\<lambda>(pr, g). g_season g)
     (filter (\<lambda>(pr, g). rec_player_id pr = pid)
        (inner_join (player_receiving d) (games d) (\<lambda>pr g. rec_game_id pr = g_game_id g)))"

text \<open>A scalar sub-select: the value of its first row, \<open>NULL\<close> when it has none.\<close>

definition scalar :: "'a option list \<Rightarrow> 'a option" where
  "scalar rows = (case rows of [] \<Rightarrow> None | v # vs \<Rightarrow> v)"

text \<open>
  Each of the three branches of the \<open>UNION ALL\<close> is an aggregate without \<open>GROUP BY\<close>:
  one row, holding \<open>NULL\<close> when the player has no row in that table.
\<close>

definition first_season_of :: "bool \<Rightarrow> string \<Rightarrow> db \<Rightarrow> int option" where
  "first_season_of nulls_low pid d =
     scalar (limit 1 (order_by (null_key nulls_low)
       ([sql_min (passing_seasons pid d)] @ [sql_min (rushing_seasons pid d)]
          @ [sql_min (receiving_seasons pid d)])))"

definition last_season_of :: "bool \<Rightarrow> string \<Rightarrow> db \<Rightarrow> int option" where
  "last_season_of nulls_low pid d =
     scalar (limit 1 (order_by_desc (null_key nulls_low)
       ([sql_max (passing_seasons pid d)] @ [sql_max (rushing_seasons pid d)]
          @ [sql_max (receiving_seasons pid d)])))"

definition searchPlayers :: "bool \<Rightarrow> string \<Rightarrow> nat \<Rightarrow> db \<Rightarrow> player_hit list" where
  "searchPlayers nulls_low q lmt d =
     limit lmt (order_by ph_player_name (remdups
       (map (\<lambda>p. \<lparr> ph_player_id = p_player_id p, ph_player_name = p_player_name p,
                   ph_position = p_position p,
                   ph_first_season = first_season_of nulls_low (p_player_id p) d,
                   ph_last_season = last_season_of nulls_low (p_player_id p) d \<rparr>)
          (filter (\<lambda>p. like (''%'' @ q @ ''%'') (p_player_name p) \<and> p_pfa_url p \<noteq> None)
             (players d)))))"

section \<open>The leaderboard route \<open>GET /api/leaders\<close>\<close>

record request =
  scope_param :: "string option"
  category_param :: "string option"
  gameType_param :: "string option"

datatype fetcher =
    GetCareerPassingLeaders | GetCareerRushingLeaders | GetCareerReceivingLeaders
  | GetCareerDefensiveLeaders
  | GetSeasonPassingRecords | GetSeasonRushingRecords | GetSeasonReceivingRecords
  | GetSeasonDefensiveRecords
  | GetSingleGamePassingLeaders | GetSingleGameRushingLeaders | GetSingleGameReceivingLeaders
  | GetSingleGameDefensiveLeaders

datatype leaders =
    CareerPassing "passing_leader list" | CareerRushing "rushing_leader list"
  | CareerReceiving "receiving_leader list" | CareerDefense "career_def_leader list"
  | SeasonPassing "passing_season_record list" | SeasonRushing "rushing_season_record list"
  | SeasonReceiving "receiving_season_record list" | SeasonDefense "season_def_record list"
  | GamePassing "passing_game_leader list" | GameRushing "rushing_game_leader list"
  | GameReceiving "receiving_game_leader list" | GameDefense "defense_game_leader list"

definition VALID_GAME_TYPES :: "string list" where
  "VALID_GAME_TYPES = [''regular'', ''playoff'', ''preseason'']"

text \<open>The object literal \<open>fetchers\<close>, as its own properties.\<close>

definition fetchers :: "(string \<times> (string \<times> fetcher) list) list" where
  "fetchers =
     [(''career'', [(''passing'', GetCareerPassingLeaders), (''rushing'', GetCareerRushingLeaders),
                    (''receiving'', GetCareerReceivingLeaders), (''defense'', GetCareerDefensiveLeaders)]),
      (''season'', [(''passing'', GetSeasonPassingRecords), (''rushing'', GetSeasonRushingRecords),
                    (''receiving'', GetSeasonReceivingRecords), (''defense'', GetSeasonDefensiveRecords)]),
      (''game'', [(''passing'', GetSingleGamePassingLeaders), (''rushing'', GetSingleGameRushingLeaders),
                  (''receiving'', GetSingleGameReceivingLeaders), (''defense'', GetSingleGameDefensiveLeaders)])]"

text \<open>
  \<open>obj[key]\<close> on an object literal reads an own property, or else a property that the
  object inherits from \<open>Object.prototype\<close>, or else is \<open>undefined\<close>.  The standard names
  of \<open>Object.prototype\<close> are listed; each holds a function (or, for \<open>__proto__\<close>, the
  prototype object), so each is truthy.
\<close>

datatype 'a js = Undefined | Own 'a | Builtin string

definition object_prototype_keys :: "string list" where
  "object_prototype_keys =
     [''constructor'', ''hasOwnProperty'', ''isPrototypeOf'', ''propertyIsEnumerable'',
      ''toLocaleString'', ''toString'', ''valueOf'', ''__proto__'',
      ''__defineGetter__'', ''__defineSetter__'', ''__lookupGetter__'', ''__lookupSetter__'']"

definition obj_get :: "(string \<times> 'a) list \<Rightarrow> string \<Rightarrow> 'a js" where
  "obj_get props key =
     (case map_of props key of
        Some v \<Rightarrow> Own v
      | None \<Rightarrow> if key \<in> set object_prototype_keys then Builtin key else Undefined)"

text \<open>
  \<open>fetchers[scope]?.[category]\<close>.  When \<open>fetchers[scope]\<close> is an inherited built-in, the
  second read is a property of that built-in; whether it is truthy is the runtime's
  matter, the parameter \<open>builtin_truthy\<close>.
\<close>

definition lookup_fetcher :: "(string \<Rightarrow> string \<Rightarrow> bool) \<Rightarrow> string \<Rightarrow> string \<Rightarrow> fetcher js" where
  "lookup_fetcher builtin_truthy scope category =
     (case obj_get fetchers scope of
        Undefined \<Rightarrow> Undefined
      | Own table \<Rightarrow> obj_get table category
      | Builtin b \<Rightarrow> if builtin_truthy b category then Builtin category else Undefined)"

text \<open>
  \<open>fetcher(50, gameType)\<close>: every one of the twelve functions declares the single
  parameter \<open>limit\<close>, so the second argument is not received by any of them.
\<close>

definition call_fetcher :: "fetcher \<Rightarrow> bool \<Rightarrow> nat \<Rightarrow> string \<Rightarrow> db \<Rightarrow> leaders" where
  "call_fetcher f nulls_low lmt gameType d =
     (case f of
        GetCareerPassingLeaders \<Rightarrow> CareerPassing (getCareerPassingLeaders lmt d)
      | GetCareerRushingLeaders \<Rightarrow> CareerRushing (getCareerRushingLeaders lmt d)
      | GetCareerReceivingLeaders \<Rightarrow> CareerReceiving (getCareerReceivingLeaders lmt d)
      | GetCareerDefensiveLeaders \<Rightarrow> CareerDefense (getCareerDefensiveLeaders lmt d)
      | GetSeasonPassingRecords \<Rightarrow> SeasonPassing (getSeasonPassingRecords lmt d)
      | GetSeasonRushingRecords \<Rightarrow> SeasonRushing (getSeasonRushingRecords lmt d)
      | GetSeasonReceivingRecords \<Rightarrow> SeasonReceiving (getSeasonReceivingRecords lmt d)
      | GetSeasonDefensiveRecords \<Rightarrow> SeasonDefense (getSeasonDefensiveRecords lmt d)
      | GetSingleGamePassingLeaders \<Rightarrow> GamePassing (getSingleGamePassingLeaders lmt d)
      | GetSingleGameRushingLeaders \<Rightarrow> GameRushing (getSingleGameRushingLeaders lmt d)
      | GetSingleGameReceivingLeaders \<Rightarrow> GameReceiving (getSingleGameReceivingLeaders lmt d)
      | GetSingleGameDefensiveLeaders \<Rightarrow> GameDefense (getSingleGameDefensiveLeaders nulls_low lmt d))"

text \<open>
  The outcomes of the route: the 400 response with its error text; the 200 response with
  the rows of a query; or, when the guard \<open>!fetcher\<close> lets a built-in through, the call
  of that built-in (no query is run, and no 400 response is sent: the call returns
  something that is not a leaderboard, or throws).
\<close>

datatype response = Json400 string | Json200 leaders | CalledBuiltin string

definition GET :: "(string \<Rightarrow> string \<Rightarrow> bool) \<Rightarrow> bool \<Rightarrow> request \<Rightarrow> db \<Rightarrow> response" where
  "GET builtin_truthy nulls_low req d =
     (let scope = (case scope_param req of None \<Rightarrow> ''career'' | Some s \<Rightarrow> s);
          category = (case category_param req of None \<Rightarrow> ''passing'' | Some c \<Rightarrow> c);
          rawGameType = (case gameType_param req of None \<Rightarrow> ''regular'' | Some t \<Rightarrow> t);
          gameType = (if rawGameType \<in> set VALID_GAME_TYPES then rawGameType else ''regular'')
      in case lookup_fetcher builtin_truthy scope category of
           Undefined \<Rightarrow> Json400 ''Invalid scope or category''
         | Own f \<Rightarrow> Json200 (call_fetcher f nulls_low 50 gameType d)
         | Builtin b \<Rightarrow> CalledBuiltin b)"

section \<open>Notions used to state the properties\<close>

text \<open>A game id that names a regular-season game; a player id of a recognized player.\<close>

definition regular_game :: "db \<Rightarrow> string \<Rightarrow> bool" where
  "regular_game d gid = list_ex (\<lambda>g. g_game_id g = gid \<and> g_game_type g = ''regular'') (games d)"

definition recognized :: "db \<Rightarrow> string \<Rightarrow> bool" where
  "recognized d pid = list_ex (\<lambda>p. p_player_id p = pid \<and> p_pfa_url p \<noteq> None) (players d)"

text \<open>The row of each grouped sub-select that a \<open>LEFT JOIN\<close> attaches to the id \<open>a\<close>.\<close>

definition def_for :: "db \<Rightarrow> string \<Rightarrow> def_agg option" where
  "def_for d a = find (\<lambda>r. dg_player_id r = a) (def_by_player d)"

definition sk_for :: "db \<Rightarrow> string \<Rightarrow> sk_agg option" where
  "sk_for d a = find (\<lambda>r. sg_player_id r = a) (sk_by_player d)"

definition it_for :: "db \<Rightarrow> string \<Rightarrow> it_agg option" where
  "it_for d a = find (\<lambda>r. ig_player_id r = a) (it_by_player d)"

text \<open>
  A player's rows of each defensive table with the game of each row; their restriction to
  regular-season games and to one season; the number of distinct games among them.
\<close>

definition defense_rows :: "string \<Rightarrow> db \<Rightarrow> (DefenseStats \<times> Game) list" where
  "defense_rows pid d = filter (\<lambda>(pd, g). pd_player_id pd = pid)
     (inner_join (player_defense d) (games d) (\<lambda>pd g. pd_game_id pd = g_game_id g))"

definition sack_rows :: "string \<Rightarrow> db \<Rightarrow> (SackStats \<times> Game) list" where
  "sack_rows pid d = filter (\<lambda>(ps, g). ps_player_id ps = pid)
     (inner_join (player_sacks d) (games d) (\<lambda>ps g. ps_game_id ps = g_game_id g))"

definition interception_rows :: "string \<Rightarrow> db \<Rightarrow> (InterceptionStats \<times> Game) list" where
  "interception_rows pid d = filter (\<lambda>(pi, g). pi_player_id pi = pid)
     (inner_join (player_interceptions d) (games d) (\<lambda>pi g. pi_game_id pi = g_game_id g))"

definition regular_only :: "('r \<times> Game) list \<Rightarrow> ('r \<times> Game) list" where
  "regular_only rows = filter (\<lambda>(r, g). g_game_type g = ''regular'') rows"

definition in_season :: "int \<Rightarrow> ('r \<times> Game) list \<Rightarrow> ('r \<times> Game) list" where
  "in_season s rows = filter (\<lambda>(r, g). g_season g = s) rows"

definition games_of :: "('r \<Rightarrow> string) \<Rightarrow> ('r \<times> Game) list \<Rightarrow> int" where
  "games_of gid rows = count_distinct (map (\<lambda>(r, g). gid r) rows)"





section \<open>Example rows\<close>

text \<open>Rows used in the examples: only the columns named differ from zero or empty.\<close>

definition mk_game :: "string \<Rightarrow> int \<Rightarrow> string \<Rightarrow> Game" where
  "mk_game gid season gtype =
     \<lparr> g_game_id = gid, g_season = season, g_game_date = gid, g_game_type = gtype,
       g_opponent = '''', g_home_away = ''home'', g_saints_score = None,
       g_opponent_score = None, g_result = None \<rparr>"

definition mk_player :: "string \<Rightarrow> string \<Rightarrow> string option \<Rightarrow> Player" where
  "mk_player pid name url =
     \<lparr> p_player_id = pid, p_player_name = name, p_pfa_url = url, p_position = None \<rparr>"

definition mk_defense :: "string \<Rightarrow> string \<Rightarrow> int \<Rightarrow> DefenseStats" where
  "mk_defense gid pid tkl =
     \<lparr> pd_game_id = gid, pd_player_id = pid, pd_tkl = tkl, pd_tfl = 0, pd_qh = 0,
       pd_pd = 0, pd_ff = 0 \<rparr>"

definition mk_sack :: "string \<Rightarrow> string \<Rightarrow> int \<Rightarrow> SackStats" where
  "mk_sack gid pid n = \<lparr> ps_game_id = gid, ps_player_id = pid, ps_sacks = n \<rparr>"

definition mk_interception :: "string \<Rightarrow> string \<Rightarrow> int \<Rightarrow> InterceptionStats" where
  "mk_interception gid pid n =
     \<lparr> pi_game_id = gid, pi_player_id = pid, pi_int_count = n, pi_yds = 0, pi_td = 0 \<rparr>"

definition mk_passing :: "string \<Rightarrow> string \<Rightarrow> int \<Rightarrow> PassingStats" where
  "mk_passing gid pid yds =
     \<lparr> pp_game_id = gid, pp_player_id = pid, pp_att = 0, pp_com = 0, pp_int_thrown = 0,
       pp_yds = yds, pp_td = 0, pp_sacked = 0, pp_rtg = 0 \<rparr>"

definition mk_rushing :: "string \<Rightarrow> string \<Rightarrow> int \<Rightarrow> RushingStats" where
  "mk_rushing gid pid yds =
     \<lparr> pr_game_id = gid, pr_player_id = pid, pr_att = 0, pr_yds = yds, pr_td = 0 \<rparr>"

definition mk_receiving :: "string \<Rightarrow> string \<Rightarrow> int \<Rightarrow> ReceivingStats" where
  "mk_receiving gid pid yds =
     \<lparr> rec_game_id = gid, rec_player_id = pid, rec_rec = 0, rec_yds = yds, rec_td = 0 \<rparr>"

definition empty_db :: db where
  "empty_db = \<lparr> games = [], players = [], player_passing = [], player_rushing = [],
                player_receiving = [], player_defense = [], player_sacks = [],
                player_interceptions = [] \<rparr>"

text \<open>
  The example of the specification: one \<open>player_defense\<close> row in 2001 with five tackles,
  no sack row, one \<open>player_interceptions\<close> row in 1999 with one interception.
\<close>

definition db_career_example :: db where
  "db_career_example = empty_db
     \<lparr> games := [mk_game ''g1999'' 1999 ''regular'', mk_game ''g2001'' 2001 ''regular''],
       players := [mk_player ''P'' ''Pat'' (Some ''url'')],
       player_defense := [mk_defense ''g2001'' ''P'' 5],
       player_interceptions := [mk_interception ''g1999'' ''P'' 1] \<rparr>"

definition db_gametype :: db where
  "db_gametype = empty_db
     \<lparr> games := [mk_game ''g1'' 2020 ''regular'', mk_game ''g2'' 2020 ''playoff''],
       players := [mk_player ''P'' ''Pat'' (Some ''url'')],
       player_passing := [mk_passing ''g1'' ''P'' 300, mk_passing ''g2'' ''P'' 250] \<rparr>"

definition db_season_merge :: db where
  "db_season_merge = empty_db
     \<lparr> games := [mk_game ''g1'' 2001 ''regular''],
       players := [mk_player ''P'' ''Pat'' (Some ''url'')],
       player_defense := [mk_defense ''g1'' ''P'' 5],
       player_sacks := [mk_sack ''g1'' ''P'' 2] \<rparr>"

definition db_dup :: db where
  "db_dup = empty_db
     \<lparr> games := [mk_game ''g1'' 2020 ''regular''],
       players := [mk_player ''P'' ''Pat'' (Some ''url'')],
       player_passing := [mk_passing ''g1'' ''P'' 300, mk_passing ''g1'' ''P'' 12] \<rparr>"

definition db_search :: db where
  "db_search = empty_db
     \<lparr> games := [mk_game ''g1'' 1999 ''regular''],
       players := [mk_player ''P'' ''Pat'' (Some ''url'')],
       player_rushing := [mk_rushing ''g1'' ''P'' 10] \<rparr>"

definition db_playoff_sack :: db where
  "db_playoff_sack = empty_db
     \<lparr> games := [mk_game ''gp'' 1980 ''playoff''],
       players := [mk_player ''X'' ''Xavier'' (Some ''url'')],
       player_sacks := [mk_sack ''gp'' ''X'' 2] \<rparr>"

definition db_playoff_int :: db where
  "db_playoff_int = empty_db
     \<lparr> games := [mk_game ''gp'' 1970 ''playoff''],
       players := [mk_player ''Y'' ''Yul'' (Some ''url'')],
       player_interceptions := [mk_interception ''gp'' ''Y'' 3] \<rparr>"

definition db_games_count :: db where
  "db_games_count = empty_db
     \<lparr> games := [mk_game ''g1'' 2001 ''regular'', mk_game ''g2'' 2001 ''regular''],
       players := [mk_player ''P'' ''Pat'' (Some ''url'')],
       player_defense := [mk_defense ''g1'' ''P'' 5, mk_defense ''g2'' ''P'' 4],
       player_sacks := [mk_sack ''g1'' ''P'' 2] \<rparr>"

definition db_sack_only :: db where
  "db_sack_only = empty_db
     \<lparr> games := [mk_game ''g1'' 1980 ''regular'', mk_game ''g2'' 1980 ''playoff''],
       players := [mk_player ''X'' ''Xavier'' (Some ''url'')],
       player_sacks := [mk_sack ''g1'' ''X'' 3, mk_sack ''g2'' ''X'' 2] \<rparr>"

definition db_int_only :: db where
  "db_int_only = empty_db
     \<lparr> games := [mk_game ''g1'' 1970 ''regular'', mk_game ''g2'' 1970 ''playoff''],
       players := [mk_player ''Y'' ''Yul'' (Some ''url'')],
       player_interceptions := [mk_interception ''g1'' ''Y'' 2, mk_interception ''g2'' ''Y'' 1] \<rparr>"



section \<open>Properties of the SQL operators\<close>

lemma find_filter_conv: "find P ys = (case filter P ys of [] \<Rightarrow> None | y # zs \<Rightarrow> Some y)"
  by (induction ys) auto

lemma left_join_unique:
  assumes "\<And>x. x \<in> set xs \<Longrightarrow> length (filter (on x) ys) \<le> 1"
  shows "left_join xs ys on = map (\<lambda>x. (x, find (on x) ys)) xs"
  using assms
proof (induction xs)
  case Nil
  then show ?case by (simp add: left_join_def)
next
  case (Cons x xs)
  have tl: "left_join xs ys on = map (\<lambda>x. (x, find (on x) ys)) xs"
    using Cons by simp
  have hd: "(case filter (on x) ys of [] \<Rightarrow> [(x, None)] | m # ms \<Rightarrow> map (\<lambda>y. (x, Some y)) (m # ms))
        = [(x, find (on x) ys)]"
  proof (cases "filter (on x) ys")
    case Nil
    then show ?thesis by (simp add: find_filter_conv)
  next
    case (Cons m ms)
    moreover have "length (filter (on x) ys) \<le> 1" using Cons.prems by simp
    ultimately have "ms = []" by simp
    with Cons show ?thesis by (simp add: find_filter_conv)
  qed
  have "left_join (x # xs) ys on
        = (case filter (on x) ys of [] \<Rightarrow> [(x, None)] | m # ms \<Rightarrow> map (\<lambda>y. (x, Some y)) (m # ms))
          @ left_join xs ys on"
    by (simp add: left_join_def)
  then show ?case by (simp only: hd tl) simp
qed

lemma group_by_keys: "map fst (group_by key xs) = remdups (map key xs)"
  by (simp add: group_by_def comp_def)

lemma distinct_filter_le1:
  "distinct (map f ys) \<Longrightarrow> length (filter (\<lambda>y. f y = a) ys) \<le> 1"
proof (induction ys)
  case Nil
  then show ?case by simp
next
  case (Cons y ys)
  show ?case
  proof (cases "f y = a")
    case True
    have "f y \<notin> f ` set ys" using Cons.prems by simp
    with True have "\<forall>z\<in>set ys. f z \<noteq> a" by (metis imageI)
    then have "filter (\<lambda>z. f z = a) ys = []"
      by (simp add: filter_empty_conv)
    with True show ?thesis by simp
  next
    case False
    with Cons show ?thesis by simp
  qed
qed

lemma find_keyed:
  assumes "\<And>k rows. f (g (k, rows)) = k"
  shows "find (\<lambda>r. f r = a) (map (\<lambda>k. g (k, F k)) ks)
         = (if a \<in> set ks then Some (g (a, F a)) else None)"
  by (induction ks) (auto simp: assms)

lemma find_group:
  assumes "\<And>k rows. f (g (k, rows)) = k"
  shows "find (\<lambda>r. f r = a) (map g (group_by key xs))
         = (if a \<in> key ` set xs then Some (g (a, filter (\<lambda>x. key x = a) xs)) else None)"
proof -
  have "map g (group_by key xs)
        = map (\<lambda>k. g (k, filter (\<lambda>x. key x = k) xs)) (remdups (map key xs))"
    by (simp add: group_by_def comp_def)
  then show ?thesis
    using find_keyed[of f g a "\<lambda>k. filter (\<lambda>x. key x = k) xs" "remdups (map key xs)"] assms
    by simp
qed

lemma group_unique:
  assumes "\<And>k rows. f (g (k, rows)) = k"
  shows "length (filter (\<lambda>r. f r = a) (map g (group_by key xs))) \<le> 1"
proof -
  have "map f (map g (group_by key xs)) = remdups (map key xs)"
    by (simp add: group_by_def comp_def assms)
  then have "distinct (map f (map g (group_by key xs)))" by simp
  then show ?thesis by (rule distinct_filter_le1)
qed

lemma dg_key [simp]: "dg_player_id (def_of_group (k, rows)) = k"
  by (simp add: def_of_group_def)
lemma sg_key [simp]: "sg_player_id (sk_of_group (k, rows)) = k"
  by (simp add: sk_of_group_def)
lemma ig_key [simp]: "ig_player_id (it_of_group (k, rows)) = k"
  by (simp add: it_of_group_def)

lemma left_join_keyed:
  assumes "\<And>k rows. f (g (k, rows)) = k"
  shows "left_join xs (map g (group_by key zs)) (\<lambda>x r. f r = kx x)
         = map (\<lambda>x. (x, find (\<lambda>r. f r = kx x) (map g (group_by key zs)))) xs"
  by (rule left_join_unique) (rule group_unique, rule assms)

lemma career_def_joined_conv:
  "career_def_joined d =
     map (\<lambda>(a, p). ((((a, p), def_for d a), sk_for d a), it_for d a))
       (inner_join (all_def d) (players d) (\<lambda>a p. a = p_player_id p))"
proof -
  let ?J = "inner_join (all_def d) (players d) (\<lambda>a p. a = p_player_id p)"
  let ?J1 = "map (\<lambda>x. (x, def_for d (fst x))) ?J"
  let ?J2 = "map (\<lambda>x. (x, sk_for d (fst (fst x)))) ?J1"
  have 1: "left_join ?J (def_by_player d) (\<lambda>x def. dg_player_id def = fst x) = ?J1"
    unfolding def_by_player_def def_for_def by (rule left_join_keyed) simp
  have 2: "left_join ?J1 (sk_by_player d) (\<lambda>x sk. sg_player_id sk = fst (fst x)) = ?J2"
    unfolding sk_by_player_def sk_for_def by (rule left_join_keyed) simp
  have 3: "left_join ?J2 (it_by_player d) (\<lambda>x it. ig_player_id it = fst (fst (fst x)))
           = map (\<lambda>x. (x, it_for d (fst (fst (fst x))))) ?J2"
    unfolding it_by_player_def it_for_def by (rule left_join_keyed) simp
  show ?thesis
    unfolding career_def_joined_def split_def 1 2 3 by (simp add: comp_def)
qed

section \<open>The career defensive leaderboard as a map over its universe\<close>

lemma career_def_universe_conv:
  "career_def_universe d =
     map (\<lambda>(a, p). career_def_leader_row ((((a, p), def_for d a), sk_for d a), it_for d a))
       (filter (\<lambda>(a, p). p_pfa_url p \<noteq> None)
          (inner_join (all_def d) (players d) (\<lambda>a p. a = p_player_id p)))"
  by (simp add: career_def_universe_def career_def_joined_conv filter_map comp_def split_def)

lemma distinct_map_filter_eq:
  assumes "distinct (map f ps)" "p \<in> set ps"
  shows "filter (\<lambda>q. f q = f p) ps = [p]"
  using assms
proof (induction ps)
  case Nil
  then show ?case by simp
next
  case (Cons q ps)
  show ?case
  proof (cases "q = p")
    case True
    have "f p \<notin> f ` set ps" using Cons.prems True by simp
    then have "\<forall>z\<in>set ps. f z \<noteq> f p" by (metis imageI)
    then have "filter (\<lambda>z. f z = f p) ps = []" by (simp add: filter_empty_conv)
    with True show ?thesis by simp
  next
    case False
    then have "p \<in> set ps" using Cons.prems by simp
    moreover have "f q \<noteq> f p"
      using Cons.prems \<open>p \<in> set ps\<close> by (metis distinct.simps(2) imageI list.simps(9) set_map)
    ultimately show ?thesis using Cons by simp
  qed
qed

lemma concat_single_hit:
  assumes "distinct as" "X \<in> set as"
  shows "concat (map (\<lambda>a. if a = X then [v] else []) as) = [v]"
  using assms
proof (induction as)
  case Nil
  then show ?case by simp
next
  case (Cons a as)
  show ?case
  proof (cases "a = X")
    case True
    then have "X \<notin> set as" using Cons.prems by simp
    then have "map (\<lambda>a. if a = X then [v] else []) as = map (\<lambda>a. []) as"
      by (intro map_cong) auto
    then show ?thesis using True by simp
  next
    case False
    then show ?thesis using Cons by simp
  qed
qed

lemma inner_join_key_filter:
  assumes "distinct as" "distinct (map f ps)" "p \<in> set ps" "f p \<in> set as"
  shows "filter (\<lambda>(a, q). f q = f p) (inner_join as ps (\<lambda>a q. a = f q)) = [(f p, p)]"
proof -
  have each: "filter (\<lambda>(a, q). f q = f p) (map (\<lambda>q. (a, q)) (filter (\<lambda>q. a = f q) ps))
        = (if a = f p then [(f p, p)] else [])" for a
  proof (cases "a = f p")
    case True
    have "filter (\<lambda>q. f q = f p) (filter (\<lambda>q. f p = f q) ps) = [p]"
      using distinct_map_filter_eq[OF assms(2,3)] by (simp add: eq_commute[of "f p"])
    then show ?thesis using True by (simp add: filter_map comp_def)
  next
    case False
    then show ?thesis by (auto simp: filter_map comp_def filter_empty_conv)
  qed
  have "filter (\<lambda>(a, q). f q = f p) (inner_join as ps (\<lambda>a q. a = f q))
        = concat (map (\<lambda>a. if a = f p then [(f p, p)] else []) as)"
    unfolding inner_join_def filter_concat map_map comp_def each ..
  then show ?thesis using concat_single_hit[OF assms(1,4)] by simp
qed

lemma cl_player_id_row [simp]:
  "cl_player_id (career_def_leader_row (((x, u), y), z)) = p_player_id (snd x)"
  by (simp add: career_def_leader_row_def split_def)

lemma universe_row:
  assumes "distinct (map p_player_id (players d))" "p \<in> set (players d)"
    "p_pfa_url p \<noteq> None" "p_player_id p \<in> set (all_def d)"
  shows "filter (\<lambda>r. cl_player_id r = p_player_id p) (career_def_universe d)
         = [career_def_leader_row ((((p_player_id p, p), def_for d (p_player_id p)),
               sk_for d (p_player_id p)), it_for d (p_player_id p))]"
proof -
  let ?J = "inner_join (all_def d) (players d) (\<lambda>a p. a = p_player_id p)"
  have dist: "distinct (all_def d)" by (simp add: all_def_def)
  have "filter (\<lambda>(a, q). p_player_id q = p_player_id p) (filter (\<lambda>(a, p). p_pfa_url p \<noteq> None) ?J)
        = filter (\<lambda>(a, p). p_pfa_url p \<noteq> None) (filter (\<lambda>(a, q). p_player_id q = p_player_id p) ?J)"
    by (simp add: conj_commute split_def)
  also have "\<dots> = [(p_player_id p, p)]"
    using inner_join_key_filter[OF dist assms(1,2,4)] assms(3) by simp
  finally show ?thesis
    by (simp add: career_def_universe_conv filter_map comp_def split_def)
qed


lemma coalesce0_sql_sum [simp]: "coalesce0 (sql_sum xs) = sum_list xs"
  by (simp add: coalesce0_def sql_sum_def)

lemma coalesce0_simps [simp]: "coalesce0 None = 0" "coalesce0 (Some v) = v"
  by (simp_all add: coalesce0_def)

lemma def_for_conv:
  "def_for d a =
     (if a \<in> (\<lambda>(pd, g). pd_player_id pd) ` set (regular_defense d)
      then Some (def_of_group (a, filter (\<lambda>x. (case x of (pd, g) \<Rightarrow> pd_player_id pd) = a) (regular_defense d)))
      else None)"
  unfolding def_for_def def_by_player_def by (rule find_group) simp

lemma sk_for_conv:
  "sk_for d a =
     (if a \<in> (\<lambda>(ps, g). ps_player_id ps) ` set (regular_sacks d)
      then Some (sk_of_group (a, filter (\<lambda>x. (case x of (ps, g) \<Rightarrow> ps_player_id ps) = a) (regular_sacks d)))
      else None)"
  unfolding sk_for_def sk_by_player_def by (rule find_group) simp

lemma it_for_conv:
  "it_for d a =
     (if a \<in> (\<lambda>(pi, g). pi_player_id pi) ` set (regular_interceptions d)
      then Some (it_of_group (a, filter (\<lambda>x. (case x of (r, g) \<Rightarrow> pi_player_id r) = a) (regular_interceptions d)))
      else None)"
  unfolding it_for_def it_by_player_def by (rule find_group) simp

lemma filter_key_empty: "a \<notin> key ` set xs \<Longrightarrow> filter (\<lambda>x. key x = a) xs = []"
  by (auto simp: filter_empty_conv)

lemma def_tkl_value:
  "coalesce0 (col dg_tkl (def_for d a))
   = sum_list (map (\<lambda>(pd, g). pd_tkl pd) (filter (\<lambda>(pd, g). pd_player_id pd = a) (regular_defense d)))"
  by (simp add: def_for_conv col_def def_of_group_def split_def filter_key_empty)

lemma sk_sacks_value:
  "coalesce0 (col sg_sacks (sk_for d a))
   = sum_list (map (\<lambda>(ps, g). ps_sacks ps) (filter (\<lambda>(ps, g). ps_player_id ps = a) (regular_sacks d)))"
  by (simp add: sk_for_conv col_def sk_of_group_def split_def filter_key_empty)

lemma it_int_value:
  "coalesce0 (col ig_int_count (it_for d a))
   = sum_list (map (\<lambda>(pi, g). pi_int_count pi) (filter (\<lambda>(pi, g). pi_player_id pi = a) (regular_interceptions d)))"
  by (simp add: it_for_conv col_def it_of_group_def split_def filter_key_empty)

lemma def_games_value:
  "coalesce0 (col dg_games (def_for d a))
   = count_distinct (map (\<lambda>(pd, g). pd_game_id pd) (filter (\<lambda>(pd, g). pd_player_id pd = a) (regular_defense d)))"
  by (simp add: def_for_conv col_def def_of_group_def split_def filter_key_empty
      count_distinct_def)

lemma sk_games_value:
  "coalesce0 (col sg_games (sk_for d a))
   = count_distinct (map (\<lambda>(ps, g). ps_game_id ps) (filter (\<lambda>(ps, g). ps_player_id ps = a) (regular_sacks d)))"
  by (simp add: sk_for_conv col_def sk_of_group_def split_def filter_key_empty
      count_distinct_def)

lemma it_games_value:
  "coalesce0 (col ig_games (it_for d a))
   = count_distinct (map (\<lambda>(pi, g). pi_game_id pi) (filter (\<lambda>(pi, g). pi_player_id pi = a) (regular_interceptions d)))"
  by (simp add: it_for_conv col_def it_of_group_def split_def filter_key_empty
      count_distinct_def)

text \<open>With one row per game id, the rows of a table joined to a regular-season game.\<close>

lemma join_regular_fst:
  assumes "distinct (map g_game_id gs)"
  shows "map fst (filter (\<lambda>(x, g). g_game_type g = ''regular'')
                    (inner_join xs gs (\<lambda>x g. k x = g_game_id g)))
         = filter (\<lambda>x. list_ex (\<lambda>g. g_game_id g = k x \<and> g_game_type g = ''regular'') gs) xs"
proof -
  have each: "map fst (filter (\<lambda>(x, g). g_game_type g = ''regular'')
                  (map (\<lambda>g. (x, g)) (filter (\<lambda>g. k x = g_game_id g) gs)))
        = (if list_ex (\<lambda>g. g_game_id g = k x \<and> g_game_type g = ''regular'') gs then [x] else [])" for x
  proof (cases "k x \<in> g_game_id ` set gs")
    case False
    then have "filter (\<lambda>g. k x = g_game_id g) gs = []"
      by (auto simp: filter_empty_conv)
    moreover have "\<not> list_ex (\<lambda>g. g_game_id g = k x \<and> g_game_type g = ''regular'') gs"
    proof
      assume "list_ex (\<lambda>g. g_game_id g = k x \<and> g_game_type g = ''regular'') gs"
      then obtain g where "g \<in> set gs" "g_game_id g = k x" by (auto simp: list_ex_iff)
      then have "k x \<in> g_game_id ` set gs" by (metis imageI)
      with False show False by simp
    qed
    ultimately show ?thesis by simp
  next
    case True
    then obtain g where g: "g \<in> set gs" "g_game_id g = k x" by auto
    have one: "filter (\<lambda>h. k x = g_game_id h) gs = [g]"
      using distinct_map_filter_eq[OF assms g(1)] g(2) by (simp add: eq_commute[of "k x"])
    have "list_ex (\<lambda>h. g_game_id h = k x \<and> g_game_type h = ''regular'') gs
          \<longleftrightarrow> g_game_type g = ''regular''"
    proof
      assume "list_ex (\<lambda>h. g_game_id h = k x \<and> g_game_type h = ''regular'') gs"
      then obtain h where h: "h \<in> set gs" "g_game_id h = k x" "g_game_type h = ''regular''"
        by (auto simp: list_ex_iff)
      then have "h \<in> set (filter (\<lambda>h. k x = g_game_id h) gs)" by simp
      with one have "h = g" by simp
      with h show "g_game_type g = ''regular''" by simp
    next
      assume "g_game_type g = ''regular''"
      with g show "list_ex (\<lambda>h. g_game_id h = k x \<and> g_game_type h = ''regular'') gs"
        by (auto simp: list_ex_iff)
    qed
    with one show ?thesis by simp
  qed
  have "map fst (filter (\<lambda>(x, g). g_game_type g = ''regular'')
                    (inner_join xs gs (\<lambda>x g. k x = g_game_id g)))
        = concat (map (\<lambda>x. if list_ex (\<lambda>g. g_game_id g = k x \<and> g_game_type g = ''regular'') gs
                            then [x] else []) xs)"
    unfolding inner_join_def filter_concat map_concat map_map comp_def each ..
  also have "\<dots> = filter (\<lambda>x. list_ex (\<lambda>g. g_game_id g = k x \<and> g_game_type g = ''regular'') gs) xs"
    by (induction xs) auto
  finally show ?thesis .
qed

lemma regular_sacks_fst:
  "distinct (map g_game_id (games d)) \<Longrightarrow>
   map fst (regular_sacks d) = filter (\<lambda>ps. regular_game d (ps_game_id ps)) (player_sacks d)"
  unfolding regular_sacks_def regular_game_def by (rule join_regular_fst)

lemma regular_interceptions_fst:
  "distinct (map g_game_id (games d)) \<Longrightarrow>
   map fst (regular_interceptions d)
   = filter (\<lambda>pi. regular_game d (pi_game_id pi)) (player_interceptions d)"
  unfolding regular_interceptions_def regular_game_def by (rule join_regular_fst)

lemma regular_defense_fst:
  "distinct (map g_game_id (games d)) \<Longrightarrow>
   map fst (regular_defense d) = filter (\<lambda>pd. regular_game d (pd_game_id pd)) (player_defense d)"
  unfolding regular_defense_def regular_game_def by (rule join_regular_fst)

lemma via_fst:
  "map (\<lambda>(x, g). h x) (filter (\<lambda>(x, g). P x) zs) = map h (filter P (map fst zs))"
  by (induction zs) auto

lemma regular_defense_none:
  "a \<notin> pd_player_id ` set (player_defense d) \<Longrightarrow>
   filter (\<lambda>(pd, g). pd_player_id pd = a) (regular_defense d) = []"
  by (auto simp: regular_defense_def inner_join_def filter_empty_conv)

lemma regular_sacks_none:
  "a \<notin> ps_player_id ` set (player_sacks d) \<Longrightarrow>
   filter (\<lambda>(ps, g). ps_player_id ps = a) (regular_sacks d) = []"
  by (auto simp: regular_sacks_def inner_join_def filter_empty_conv)

lemma regular_interceptions_none:
  "a \<notin> pi_player_id ` set (player_interceptions d) \<Longrightarrow>
   filter (\<lambda>(pi, g). pi_player_id pi = a) (regular_interceptions d) = []"
  by (auto simp: regular_interceptions_def inner_join_def filter_empty_conv)

lemma set_all_def:
  "set (all_def d) = pd_player_id ` set (player_defense d) \<union> ps_player_id ` set (player_sacks d)
                      \<union> pi_player_id ` set (player_interceptions d)"
  by (auto simp: all_def_def)

lemma recognizedE:
  assumes "recognized d X"
  obtains p where "p \<in> set (players d)" "p_player_id p = X" "p_pfa_url p \<noteq> None"
  using assms by (auto simp: recognized_def list_ex_iff)

lemma set_leaders_subset:
  "set (getCareerDefensiveLeaders lmt d) \<subseteq> set (career_def_universe d)"
  unfolding getCareerDefensiveLeaders_def limit_def order_by_desc_def
  using set_take_subset[of lmt "rev (sort_key cl_sacks (career_def_universe d))"] by simp

lemma universe_ids:
  assumes "r \<in> set (career_def_universe d)"
  shows "cl_player_id r \<in> set (all_def d)"
proof -
  from assms obtain a p where ap: "(a, p) \<in> set (inner_join (all_def d) (players d) (\<lambda>a p. a = p_player_id p))"
    and r: "r = career_def_leader_row ((((a, p), def_for d a), sk_for d a), it_for d a)"
    by (auto simp: career_def_universe_conv)
  from ap have "a \<in> set (all_def d)" "a = p_player_id p"
    by (auto simp: inner_join_def)
  with r show ?thesis by simp
qed

lemma leaders_filter_unlimited:
  assumes "length (career_def_universe d) \<le> lmt"
    and "filter P (career_def_universe d) = [r]"
  shows "filter P (getCareerDefensiveLeaders lmt d) = [r]"
proof -
  have "filter P (getCareerDefensiveLeaders lmt d)
        = rev (sort_key cl_sacks (filter P (career_def_universe d)))"
    using assms(1)
    by (simp add: getCareerDefensiveLeaders_def limit_def order_by_desc_def filter_sort
        rev_filter[symmetric])
  then show ?thesis by (simp add: assms(2))
qed

lemma filter_keyed:
  assumes "\<And>k rows. f (g (k, rows)) = k" "distinct ks"
  shows "filter (\<lambda>r. f r = a) (map (\<lambda>k. g (k, F k)) ks)
         = (if a \<in> set ks then [g (a, F a)] else [])"
  using assms(2) by (induction ks) (auto simp: assms(1) filter_empty_conv)

lemma filter_group:
  assumes "\<And>k rows. f (g (k, rows)) = k"
  shows "filter (\<lambda>r. f r = a) (map g (group_by key xs))
         = (if a \<in> key ` set xs then [g (a, filter (\<lambda>x. key x = a) xs)] else [])"
proof -
  have "map g (group_by key xs)
        = map (\<lambda>k. g (k, filter (\<lambda>x. key x = k) xs)) (remdups (map key xs))"
    by (simp add: group_by_def comp_def)
  then show ?thesis
    using filter_keyed[of f g "remdups (map key xs)" a "\<lambda>k. filter (\<lambda>x. key x = k) xs"] assms
    by simp
qed

lemma image_group_by:
  "g ` set (group_by key xs) = (\<lambda>k. g (k, filter (\<lambda>x. key x = k) xs)) ` key ` set xs"
  by (auto simp: group_by_def)

lemma group_by_keys_image:
  assumes "\<And>k rows. f (g (k, rows)) = k"
  shows "f ` g ` set (group_by key xs) = key ` set xs"
  by (simp add: image_group_by image_image assms)

lemma in_group_by_mapE:
  assumes "r \<in> g ` set (group_by key xs)"
  obtains k where "k \<in> key ` set xs" "r = g (k, filter (\<lambda>x. key x = k) xs)"
  using assms unfolding image_group_by by auto

lemma count_distinct_nonneg [simp]: "0 \<le> count_distinct xs"
  by (simp add: count_distinct_def)

lemma sql_max_parts:
  assumes "pa \<or> pb \<or> pc" "0 \<le> a" "0 \<le> b" "0 \<le> c"
    "\<not> pa \<Longrightarrow> a = 0" "\<not> pb \<Longrightarrow> b = 0" "\<not> pc \<Longrightarrow> c = 0"
  shows "sql_max ((if pa then [a] else []) @ (if pb then [b] else []) @ (if pc then [c] else []))
         = Some (max (max a b) c)"
  using assms by (auto simp: sql_max_def max_def)

lemma career_leader_games:
  assumes "r \<in> set (career_def_universe d)"
  shows "cl_games r
         = games_of pd_game_id (regular_only (defense_rows (cl_player_id r) d))
           + games_of ps_game_id (regular_only (sack_rows (cl_player_id r) d))
           + games_of pi_game_id (regular_only (interception_rows (cl_player_id r) d))"
proof -
  from assms obtain a p where ap: "(a, p) \<in> set (inner_join (all_def d) (players d) (\<lambda>a p. a = p_player_id p))"
    and r: "r = career_def_leader_row ((((a, p), def_for d a), sk_for d a), it_for d a)"
    by (auto simp: career_def_universe_conv)
  from ap have a: "a = p_player_id p" by (auto simp: inner_join_def)
  have id: "cl_player_id r = a" using r a by simp
  have d1: "regular_only (defense_rows a d) = filter (\<lambda>(pd, g). pd_player_id pd = a) (regular_defense d)"
    by (simp add: regular_only_def defense_rows_def regular_defense_def split_def conj_commute)
  have d2: "regular_only (sack_rows a d) = filter (\<lambda>(ps, g). ps_player_id ps = a) (regular_sacks d)"
    by (simp add: regular_only_def sack_rows_def regular_sacks_def split_def conj_commute)
  have d3: "regular_only (interception_rows a d)
            = filter (\<lambda>(pi, g). pi_player_id pi = a) (regular_interceptions d)"
    by (simp add: regular_only_def interception_rows_def regular_interceptions_def split_def
        conj_commute)
  have "cl_games r = coalesce0 (col dg_games (def_for d a)) + coalesce0 (col sg_games (sk_for d a))
                     + coalesce0 (col ig_games (it_for d a))"
    by (simp add: r career_def_leader_row_def)
  then show ?thesis
    by (simp add: id d1 d2 d3 games_of_def def_games_value sk_games_value it_games_value)
qed

lemma player_career_games:
  "map_option cd_games (getPlayerCareerDefense pid d)
   = Some (games_of pd_game_id (defense_rows pid d) + games_of ps_game_id (sack_rows pid d)
           + games_of pi_game_id (interception_rows pid d))"
  by (simp add: getPlayerCareerDefense_def Let_def career_def_sub_def career_sk_sub_def
      career_it_sub_def games_of_def defense_rows_def sack_rows_def interception_rows_def)

lemma sp_season_parts [simp]:
  "sp_season (def_part pid s rows) = s" "sp_season (sack_part pid s rows2) = s"
  "sp_season (int_part pid s rows3) = s"
  by (simp_all add: def_part_def sack_part_def int_part_def)

lemma sp_games_parts [simp]:
  "sp_games (def_part pid s rows) = count_distinct (map (\<lambda>(pd, g). pd_game_id pd) rows)"
  "sp_games (sack_part pid s rows2) = count_distinct (map (\<lambda>(ps, g). ps_game_id ps) rows2)"
  "sp_games (int_part pid s rows3) = count_distinct (map (\<lambda>(pi, g). pi_game_id pi) rows3)"
  by (simp_all add: def_part_def sack_part_def int_part_def)

lemma player_season_games:
  assumes "r \<in> set (getPlayerSeasonDefense pid d)"
  shows "sd_games r
         = Some (max (max (games_of pd_game_id (in_season (sd_season r) (defense_rows pid d)))
                          (games_of ps_game_id (in_season (sd_season r) (sack_rows pid d))))
                     (games_of pi_game_id (in_season (sd_season r) (interception_rows pid d))))"
proof -
  let ?D = "defense_rows pid d" and ?S = "sack_rows pid d" and ?I = "interception_rows pid d"
  let ?A = "map (\<lambda>(s, rows). def_part pid s rows) (group_by (\<lambda>(pd, g). g_season g) ?D)"
  let ?B = "map (\<lambda>(s, rows). sack_part pid s rows) (group_by (\<lambda>(ps, g). g_season g) ?S)"
  let ?C = "map (\<lambda>(s, rows). int_part pid s rows) (group_by (\<lambda>(pi, g). g_season g) ?I)"
  have comb: "player_season_combined pid d = ?A @ ?B @ ?C"
    by (simp add: player_season_combined_def defense_rows_def sack_rows_def interception_rows_def)
  from assms have "r \<in> season_defense_of_group ` set (group_by sp_season (player_season_combined pid d))"
    by (simp add: getPlayerSeasonDefense_def order_by_def)
  then obtain s where s0: "s \<in> sp_season ` set (player_season_combined pid d)"
    and r0: "r = season_defense_of_group (s, filter (\<lambda>x. sp_season x = s) (player_season_combined pid d))"
    by (rule in_group_by_mapE)
  have r: "r = season_defense_of_group (s, filter (\<lambda>x. sp_season x = s) (?A @ ?B @ ?C))"
    using r0 by (simp only: comb)
  let ?pa = "s \<in> (\<lambda>(pd, g). g_season g) ` set ?D"
  let ?pb = "s \<in> (\<lambda>(ps, g). g_season g) ` set ?S"
  let ?pc = "s \<in> (\<lambda>(pi, g). g_season g) ` set ?I"
  let ?a = "games_of pd_game_id (in_season s ?D)"
  let ?b = "games_of ps_game_id (in_season s ?S)"
  let ?c = "games_of pi_game_id (in_season s ?I)"
  have fa: "map sp_games (filter (\<lambda>x. sp_season x = s) ?A) = (if ?pa then [?a] else [])"
    by (subst filter_group) (auto simp: games_of_def in_season_def split_def)
  have fb: "map sp_games (filter (\<lambda>x. sp_season x = s) ?B) = (if ?pb then [?b] else [])"
    by (subst filter_group) (auto simp: games_of_def in_season_def split_def)
  have fc: "map sp_games (filter (\<lambda>x. sp_season x = s) ?C) = (if ?pc then [?c] else [])"
    by (subst filter_group) (auto simp: games_of_def in_season_def split_def)
  have ka: "sp_season ` set ?A = (\<lambda>(pd, g). g_season g) ` set ?D"
    unfolding set_map by (rule group_by_keys_image) simp
  have kb: "sp_season ` set ?B = (\<lambda>(ps, g). g_season g) ` set ?S"
    unfolding set_map by (rule group_by_keys_image) simp
  have kc: "sp_season ` set ?C = (\<lambda>(pi, g). g_season g) ` set ?I"
    unfolding set_map by (rule group_by_keys_image) simp
  have "s \<in> sp_season ` set ?A \<union> sp_season ` set ?B \<union> sp_season ` set ?C"
    using s0 unfolding comb by (simp add: image_Un)
  then have some: "?pa \<or> ?pb \<or> ?pc"
    unfolding ka kb kc by blast
  have za: "\<not> ?pa \<Longrightarrow> ?a = 0"
    using filter_key_empty[of s "\<lambda>(pd, g). g_season g" ?D]
    by (simp add: games_of_def in_season_def split_def count_distinct_def)
  have zb: "\<not> ?pb \<Longrightarrow> ?b = 0"
    using filter_key_empty[of s "\<lambda>(ps, g). g_season g" ?S]
    by (simp add: games_of_def in_season_def split_def count_distinct_def)
  have zc: "\<not> ?pc \<Longrightarrow> ?c = 0"
    using filter_key_empty[of s "\<lambda>(pi, g). g_season g" ?I]
    by (simp add: games_of_def in_season_def split_def count_distinct_def)
  have nn: "0 \<le> ?a" "0 \<le> ?b" "0 \<le> ?c" by (simp_all add: games_of_def)
  have "sd_games r = sql_max (map sp_games (filter (\<lambda>x. sp_season x = s) (?A @ ?B @ ?C)))"
    by (simp add: r season_defense_of_group_def)
  also have "\<dots> = sql_max ((if ?pa then [?a] else []) @ (if ?pb then [?b] else [])
                            @ (if ?pc then [?c] else []))"
    by (simp only: filter_append map_append fa fb fc)
  also have "\<dots> = Some (max (max ?a ?b) ?c)"
    using some nn za zb zc by (rule sql_max_parts)
  finally have "sd_games r = Some (max (max ?a ?b) ?c)" .
  moreover have "sd_season r = s" by (simp add: r season_defense_of_group_def)
  ultimately show ?thesis by simp
qed


section \<open>The game log as a map over the games\<close>







lemma gl_simps [simp]:
  "gl_game_id (game_log_row_of (((g, a), b), c)) = g_game_id g"
  "gl_game_type (game_log_row_of (((g, a), b), c)) = g_game_type g"
  by (simp_all add: game_log_row_of_def)



section \<open>Results\<close>

text \<open>
  C1.  The career-defense summary should report as \<open>first_season\<close> the minimum over the
  three defensive tables.  On the specification's own example (tackles in 2001, an
  interception in 1999) the query reports \<open>first_season = 2001\<close>, not 1999:
  \<open>COALESCE\<close> takes the first table that has a value, and the \<open>MIN\<close> around it ranges
  over a single row.  The other columns of the example are as expected.
\<close>

theorem C1_career_defense_first_season_not_min:
  "getPlayerCareerDefense ''P'' db_career_example =
     Some \<lparr> cd_tkl = 5, cd_tfl = 0, cd_qh = 0, cd_pd_count = 0, cd_ff = 0, cd_sacks = 0,
            cd_int_count = 1, cd_int_yds = 0, cd_int_td = 0, cd_games = 2,
            cd_first_season = Some 2001, cd_last_season = Some 2001 \<rparr>"
  by (simp add: getPlayerCareerDefense_def career_def_sub_def career_sk_sub_def
      career_it_sub_def db_career_example_def empty_db_def inner_join_def
      mk_game_def mk_player_def mk_defense_def mk_interception_def
      sql_sum_def sql_min_def sql_max_def count_distinct_def non_null_def coalesce0_def)


text \<open>
  The sack total of the claim C2 is not what the leaderboard shows when sacks fall in
  playoff games: a recognized player whose only row is a playoff sack row with two sacks
  is listed with \<open>sacks = 0\<close>.
\<close>

theorem C2_playoff_sacks_counterexample:
  "career_def_universe db_playoff_sack =
     [\<lparr> cl_player_id = ''X'', cl_player_name = ''Xavier'', cl_tkl = 0, cl_tfl = 0,
        cl_qh = 0, cl_pd_count = 0, cl_ff = 0, cl_sacks = 0, cl_int_count = 0,
        cl_games = 0 \<rparr>]
   \<and> map ps_sacks (player_sacks db_playoff_sack) = [2]
   \<and> player_defense db_playoff_sack = [] \<and> player_interceptions db_playoff_sack = []"
  by code_simp

text \<open>
  C2 (amended).  Let player ids and game ids be keys of their tables.  A recognized
  player \<open>X\<close> with at least one row in \<open>player_sacks\<close> and no row in \<open>player_defense\<close> and
  \<open>player_interceptions\<close> appears exactly once in the universe of the career defensive
  leaderboard, with \<open>tkl = 0\<close>, \<open>int_count = 0\<close> and \<open>sacks\<close> equal to the sum of the sacks
  of \<open>X\<close>'s rows in regular-season games.  The universe \<open>all_def\<close> holds each player id of
  the three tables once, and the three left joins keep every row of the universe joined
  to the players, once each.
\<close>

theorem C2_sack_only_player_row:
  assumes "distinct (map p_player_id (players d))"
    and "distinct (map g_game_id (games d))"
    and "recognized d X"
    and "X \<in> ps_player_id ` set (player_sacks d)"
    and "X \<notin> pd_player_id ` set (player_defense d)"
    and "X \<notin> pi_player_id ` set (player_interceptions d)"
  shows "map (\<lambda>r. (cl_tkl r, cl_sacks r, cl_int_count r))
           (filter (\<lambda>r. cl_player_id r = X) (career_def_universe d))
         = [(0, sum_list (map ps_sacks (filter (\<lambda>s. ps_player_id s = X \<and> regular_game d (ps_game_id s))
                                           (player_sacks d))), 0)]
       \<and> distinct (all_def d)
       \<and> set (all_def d) = pd_player_id ` set (player_defense d) \<union> ps_player_id ` set (player_sacks d)
                             \<union> pi_player_id ` set (player_interceptions d)
       \<and> map (\<lambda>((((a, p), def), sk), it). (a, p)) (career_def_joined d)
           = inner_join (all_def d) (players d) (\<lambda>a p. a = p_player_id p)"
proof -
  from assms(3) obtain p where p: "p \<in> set (players d)" "p_player_id p = X" "p_pfa_url p \<noteq> None"
    by (rule recognizedE)
  have inU: "p_player_id p \<in> set (all_def d)" using assms(4) p(2) by (simp add: set_all_def)
  have row: "filter (\<lambda>r. cl_player_id r = X) (career_def_universe d)
         = [career_def_leader_row ((((X, p), def_for d X), sk_for d X), it_for d X)]"
    using universe_row[OF assms(1) p(1) p(3) inU] p(2) by simp
  have sacks: "sum_list (map (\<lambda>(ps, g). ps_sacks ps) (filter (\<lambda>(ps, g). ps_player_id ps = X) (regular_sacks d)))
        = sum_list (map ps_sacks (filter (\<lambda>s. ps_player_id s = X \<and> regular_game d (ps_game_id s))
                                           (player_sacks d)))"
    by (simp add: via_fst regular_sacks_fst[OF assms(2)] conj_commute)
  have fields: "(\<lambda>r. (cl_tkl r, cl_sacks r, cl_int_count r))
                  (career_def_leader_row ((((X, p), def_for d X), sk_for d X), it_for d X))
        = (0, sum_list (map ps_sacks (filter (\<lambda>s. ps_player_id s = X \<and> regular_game d (ps_game_id s))
                                           (player_sacks d))), 0)"
    by (simp add: career_def_leader_row_def def_tkl_value sk_sacks_value it_int_value
        regular_defense_none[OF assms(5)] regular_interceptions_none[OF assms(6)] sacks)
  have keep: "map (\<lambda>((((a, p), def), sk), it). (a, p)) (career_def_joined d)
           = inner_join (all_def d) (players d) (\<lambda>a p. a = p_player_id p)"
    by (simp add: career_def_joined_conv comp_def split_def)
  show ?thesis
  proof (intro conjI)
    show "map (\<lambda>r. (cl_tkl r, cl_sacks r, cl_int_count r))
           (filter (\<lambda>r. cl_player_id r = X) (career_def_universe d))
         = [(0, sum_list (map ps_sacks (filter (\<lambda>s. ps_player_id s = X \<and> regular_game d (ps_game_id s))
                                           (player_sacks d))), 0)]"
      unfolding row using fields by simp
    show "distinct (all_def d)" by (simp add: all_def_def)
    show "set (all_def d) = pd_player_id ` set (player_defense d) \<union> ps_player_id ` set (player_sacks d)
                             \<union> pi_player_id ` set (player_interceptions d)"
      by (rule set_all_def)
    show "map (\<lambda>((((a, p), def), sk), it). (a, p)) (career_def_joined d)
           = inner_join (all_def d) (players d) (\<lambda>a p. a = p_player_id p)"
      by (rule keep)
  qed
qed



theorem C2_sack_only_player_row_witness:
  "distinct (map p_player_id (players db_sack_only))
   \<and> distinct (map g_game_id (games db_sack_only))
   \<and> recognized db_sack_only ''X''
   \<and> ''X'' \<in> ps_player_id ` set (player_sacks db_sack_only)
   \<and> ''X'' \<notin> pd_player_id ` set (player_defense db_sack_only)
   \<and> ''X'' \<notin> pi_player_id ` set (player_interceptions db_sack_only)
   \<and> map (\<lambda>r. (cl_tkl r, cl_sacks r, cl_int_count r))
        (filter (\<lambda>r. cl_player_id r = ''X'') (career_def_universe db_sack_only)) = [(0, 3, 0)]"
proof -
  have h1: "distinct (map p_player_id (players db_sack_only))" by code_simp
  have h2: "distinct (map g_game_id (games db_sack_only))" by code_simp
  have h3: "recognized db_sack_only ''X''" by code_simp
  have h4: "''X'' \<in> ps_player_id ` set (player_sacks db_sack_only)" by code_simp
  have h5: "''X'' \<notin> pd_player_id ` set (player_defense db_sack_only)" by code_simp
  have h6: "''X'' \<notin> pi_player_id ` set (player_interceptions db_sack_only)" by code_simp
  have v: "sum_list (map ps_sacks (filter (\<lambda>s. ps_player_id s = ''X''
              \<and> regular_game db_sack_only (ps_game_id s)) (player_sacks db_sack_only))) = 3"
    by code_simp
  from C2_sack_only_player_row[OF h1 h2 h3 h4 h5 h6] v h1 h2 h3 h4 h5 h6 show ?thesis by simp
qed


text \<open>
  C3.  A leaderboard request that carries \<open>gameType = playoff\<close> (or \<open>preseason\<close>) should
  return rows aggregated over games of that type.  The route validates the parameter and
  passes it on as the second argument, but the query functions take \<open>limit\<close> only and
  filter on \<open>g.game_type = 'regular'\<close>: for a player with 300 yards in a regular-season
  game and 250 yards in a playoff game, the career passing leaderboard requested for
  \<open>playoff\<close> is the regular-season row (300 yards, one game).  In general the
  response does not depend on the \<open>gameType\<close> parameter at all.
\<close>

theorem C3_playoff_request_returns_regular_rows:
  "GET builtin_truthy nulls_low
     \<lparr> scope_param = Some ''career'', category_param = Some ''passing'',
       gameType_param = Some ''playoff'' \<rparr> db_gametype
   = Json200 (CareerPassing
       [\<lparr> pl_player_id = ''P'', pl_player_name = ''Pat'', pl_yds = 300, pl_td = 0,
          pl_int_thrown = 0, pl_com = 0, pl_att = 0, pl_games = 1 \<rparr>])
   \<and> GET builtin_truthy nulls_low (req\<lparr>gameType_param := t\<rparr>) d
       = GET builtin_truthy nulls_low req d"
proof
  show "GET builtin_truthy nulls_low
     \<lparr> scope_param = Some ''career'', category_param = Some ''passing'',
       gameType_param = Some ''playoff'' \<rparr> db_gametype
   = Json200 (CareerPassing
       [\<lparr> pl_player_id = ''P'', pl_player_name = ''Pat'', pl_yds = 300, pl_td = 0,
          pl_int_thrown = 0, pl_com = 0, pl_att = 0, pl_games = 1 \<rparr>])"
    by code_simp
  show "GET builtin_truthy nulls_low (req\<lparr>gameType_param := t\<rparr>) d
       = GET builtin_truthy nulls_low req d"
    by (simp add: GET_def Let_def call_fetcher_def split: js.splits fetcher.splits)
qed

text \<open>
  C4.  In season scope the three per-table partial sums of one player and season should
  merge into one row that carries each table's sum.  \<open>getSeasonDefensiveRecords\<close> groups
  the partial rows by player and season but selects the statistics as bare columns, so
  the row it returns is one of the partial rows.  For a player with five tackles and two
  sacks in 2001 the group holds the two partial rows below, neither of which has both
  \<open>tkl = 5\<close> and \<open>sacks = 2\<close>, and the query returns the first of them;
  \<open>getPlayerSeasonDefense\<close>, which sums, returns the merged row.
\<close>

theorem C4_season_records_row_is_one_partial_row:
  "map (\<lambda>(k, grp). map season_def_record_row grp) (season_def_groups db_season_merge) =
     [[\<lparr> sr_player_id = ''P'', sr_player_name = ''Pat'', sr_season = 2001, sr_tkl = 5,
         sr_tfl = 0, sr_qh = 0, sr_pd_count = 0, sr_ff = 0, sr_sacks = 0,
         sr_int_count = 0, sr_games = 1 \<rparr>,
       \<lparr> sr_player_id = ''P'', sr_player_name = ''Pat'', sr_season = 2001, sr_tkl = 0,
         sr_tfl = 0, sr_qh = 0, sr_pd_count = 0, sr_ff = 0, sr_sacks = 2,
         sr_int_count = 0, sr_games = 1 \<rparr>]]
   \<and> getSeasonDefensiveRecords 25 db_season_merge =
     [\<lparr> sr_player_id = ''P'', sr_player_name = ''Pat'', sr_season = 2001, sr_tkl = 5,
        sr_tfl = 0, sr_qh = 0, sr_pd_count = 0, sr_ff = 0, sr_sacks = 0,
        sr_int_count = 0, sr_games = 1 \<rparr>]
   \<and> getPlayerSeasonDefense ''P'' db_season_merge =
     [\<lparr> sd_season = 2001, sd_tkl = Some 5, sd_tfl = Some 0, sd_qh = Some 0,
        sd_pd_count = Some 0, sd_ff = Some 0, sd_sacks = Some 2,
        sd_int_count = Some 0, sd_games = Some 1 \<rparr>]"
  by code_simp

text \<open>
  The games-played value of the claim C5 is not a sum in season scope: for a player with
  one game in \<open>player_defense\<close> and one in \<open>player_sacks\<close> in 2001, the partial counts are 1
  and 1 and \<open>getPlayerSeasonDefense\<close> reports one game, not two.
\<close>

theorem C5_season_games_counterexample:
  "map sd_games (getPlayerSeasonDefense ''P'' db_season_merge) = [Some 1]
   \<and> map sp_games (player_season_combined ''P'' db_season_merge) = [1, 1]"
  by code_simp

text \<open>
  C5 (amended).  In career scope the games-played value is the sum of the three tables'
  distinct-game counts for the player: over regular-season games in every row of
  \<open>getCareerDefensiveLeaders\<close>, over all games in \<open>getPlayerCareerDefense\<close>.  In season
  scope every row of \<open>getPlayerSeasonDefense\<close> carries the maximum of the three tables'
  distinct-game counts for the player and that season (\<open>MAX(games)\<close>).
\<close>

theorem C5_games_played:
  "(\<forall>r\<in>set (getCareerDefensiveLeaders lmt d).
      cl_games r = games_of pd_game_id (regular_only (defense_rows (cl_player_id r) d))
                   + games_of ps_game_id (regular_only (sack_rows (cl_player_id r) d))
                   + games_of pi_game_id (regular_only (interception_rows (cl_player_id r) d)))
   \<and> map_option cd_games (getPlayerCareerDefense pid d)
       = Some (games_of pd_game_id (defense_rows pid d) + games_of ps_game_id (sack_rows pid d)
               + games_of pi_game_id (interception_rows pid d))
   \<and> (\<forall>r\<in>set (getPlayerSeasonDefense pid d).
        sd_games r
        = Some (max (max (games_of pd_game_id (in_season (sd_season r) (defense_rows pid d)))
                         (games_of ps_game_id (in_season (sd_season r) (sack_rows pid d))))
                    (games_of pi_game_id (in_season (sd_season r) (interception_rows pid d)))))"
proof (intro conjI ballI)
  fix r assume "r \<in> set (getCareerDefensiveLeaders lmt d)"
  then have "r \<in> set (career_def_universe d)" using set_leaders_subset by blast
  then show "cl_games r = games_of pd_game_id (regular_only (defense_rows (cl_player_id r) d))
                   + games_of ps_game_id (regular_only (sack_rows (cl_player_id r) d))
                   + games_of pi_game_id (regular_only (interception_rows (cl_player_id r) d))"
    by (rule career_leader_games)
next
  show "map_option cd_games (getPlayerCareerDefense pid d)
       = Some (games_of pd_game_id (defense_rows pid d) + games_of ps_game_id (sack_rows pid d)
               + games_of pi_game_id (interception_rows pid d))"
    by (rule player_career_games)
next
  fix r assume "r \<in> set (getPlayerSeasonDefense pid d)"
  then show "sd_games r
        = Some (max (max (games_of pd_game_id (in_season (sd_season r) (defense_rows pid d)))
                         (games_of ps_game_id (in_season (sd_season r) (sack_rows pid d))))
                    (games_of pi_game_id (in_season (sd_season r) (interception_rows pid d))))"
    by (rule player_season_games)
qed


theorem C5_games_played_witness:
  "map (\<lambda>r. (cl_player_id r, cl_games r)) (getCareerDefensiveLeaders 25 db_games_count) = [(''P'', 3)]
   \<and> map_option cd_games (getPlayerCareerDefense ''P'' db_games_count) = Some 3
   \<and> map (\<lambda>r. (sd_season r, sd_games r)) (getPlayerSeasonDefense ''P'' db_games_count)
       = [(2001, Some 2)]"
proof -
  obtain r where rows: "getCareerDefensiveLeaders 25 db_games_count = [r]"
    and id: "cl_player_id r = ''P''"
    by (rule that[of "hd (getCareerDefensiveLeaders 25 db_games_count)"]; code_simp)
  obtain q where seasons: "getPlayerSeasonDefense ''P'' db_games_count = [q]"
    and yr: "sd_season q = 2001"
    by (rule that[of "hd (getPlayerSeasonDefense ''P'' db_games_count)"]; code_simp)
  have c1: "games_of pd_game_id (regular_only (defense_rows ''P'' db_games_count)) = 2"
    "games_of ps_game_id (regular_only (sack_rows ''P'' db_games_count)) = 1"
    "games_of pi_game_id (regular_only (interception_rows ''P'' db_games_count)) = 0"
    by code_simp+
  have c2: "games_of pd_game_id (defense_rows ''P'' db_games_count) = 2"
    "games_of ps_game_id (sack_rows ''P'' db_games_count) = 1"
    "games_of pi_game_id (interception_rows ''P'' db_games_count) = 0"
    by code_simp+
  have c3: "games_of pd_game_id (in_season 2001 (defense_rows ''P'' db_games_count)) = 2"
    "games_of ps_game_id (in_season 2001 (sack_rows ''P'' db_games_count)) = 1"
    "games_of pi_game_id (in_season 2001 (interception_rows ''P'' db_games_count)) = 0"
    by code_simp+
  from C5_games_played[of 25 db_games_count "''P''"] show ?thesis
    by (simp add: rows id seasons yr c1 c2 c3)
qed


text \<open>
  C6.  The games-played value of a passing aggregate should count the distinct
  \<open>game_id\<close> values that contribute to the sum, not the rows.
  \<open>getSeasonPassingLeaders\<close> selects \<open>COUNT(*)\<close>: with two passing rows of one player for
  the same game (both contribute to the yards, 312) it reports two games, where the
  rows hold one distinct \<open>game_id\<close>.  \<open>getSeasonPassingRecords\<close> and
  \<open>getPlayerCareerPassing\<close>, which select \<open>COUNT(DISTINCT game_id)\<close>, report one game on
  the same rows.
\<close>

theorem C6_season_leaders_count_rows:
  "getSeasonPassingLeaders 2020 db_dup =
     [\<lparr> pl_player_id = ''P'', pl_player_name = ''Pat'', pl_yds = 312, pl_td = 0,
        pl_int_thrown = 0, pl_com = 0, pl_att = 0, pl_games = 2 \<rparr>]
   \<and> remdups (map pp_game_id (player_passing db_dup)) = [''g1'']
   \<and> map pl_games (getSeasonPassingRecords 25 db_dup) = [1]
   \<and> map_option cp_games (getPlayerCareerPassing ''P'' db_dup) = Some 1"
  by code_simp

text \<open>
  The claim C7 promises \<open>int_count > 0\<close> for a player who is present only in the
  interceptions table.  A recognized player whose only row is an interception row of a
  playoff game is listed with \<open>int_count = 0\<close> (and \<open>tkl = 0\<close>, \<open>sacks = 0\<close>).
\<close>

theorem C7_playoff_interception_counterexample:
  "getCareerDefensiveLeaders 25 db_playoff_int =
     [\<lparr> cl_player_id = ''Y'', cl_player_name = ''Yul'', cl_tkl = 0, cl_tfl = 0,
        cl_qh = 0, cl_pd_count = 0, cl_ff = 0, cl_sacks = 0, cl_int_count = 0,
        cl_games = 0 \<rparr>]
   \<and> map pi_int_count (player_interceptions db_playoff_int) = [3]
   \<and> player_defense db_playoff_int = [] \<and> player_sacks db_playoff_int = []"
  by code_simp

text \<open>
  The row of a recognized player who is present only in the interceptions table, when
  player ids and game ids are keys of their tables.
\<close>

lemma interception_only_row:
  assumes "distinct (map p_player_id (players d))"
    and "distinct (map g_game_id (games d))"
    and "recognized d X"
    and "X \<in> pi_player_id ` set (player_interceptions d)"
    and "X \<notin> pd_player_id ` set (player_defense d)"
    and "X \<notin> ps_player_id ` set (player_sacks d)"
  shows "map (\<lambda>r. (cl_tkl r, cl_sacks r, cl_int_count r))
           (filter (\<lambda>r. cl_player_id r = X) (career_def_universe d))
         = [(0, 0, sum_list (map pi_int_count
                     (filter (\<lambda>i. pi_player_id i = X \<and> regular_game d (pi_game_id i))
                        (player_interceptions d))))]"
    and "length (career_def_universe d) \<le> lmt \<Longrightarrow>
            map (\<lambda>r. (cl_tkl r, cl_sacks r, cl_int_count r))
              (filter (\<lambda>r. cl_player_id r = X) (getCareerDefensiveLeaders lmt d))
            = [(0, 0, sum_list (map pi_int_count
                     (filter (\<lambda>i. pi_player_id i = X \<and> regular_game d (pi_game_id i))
                        (player_interceptions d))))]"
proof -
  from assms(3) obtain p where p: "p \<in> set (players d)" "p_player_id p = X" "p_pfa_url p \<noteq> None"
    by (rule recognizedE)
  have inU: "p_player_id p \<in> set (all_def d)" using assms(4) p(2) by (simp add: set_all_def)
  let ?row = "career_def_leader_row ((((X, p), def_for d X), sk_for d X), it_for d X)"
  let ?sum = "sum_list (map pi_int_count
                     (filter (\<lambda>i. pi_player_id i = X \<and> regular_game d (pi_game_id i))
                        (player_interceptions d)))"
  have row: "filter (\<lambda>r. cl_player_id r = X) (career_def_universe d) = [?row]"
    using universe_row[OF assms(1) p(1) p(3) inU] p(2) by simp
  have ints: "sum_list (map (\<lambda>(pi, g). pi_int_count pi)
                 (filter (\<lambda>(pi, g). pi_player_id pi = X) (regular_interceptions d))) = ?sum"
    by (simp add: via_fst regular_interceptions_fst[OF assms(2)] conj_commute)
  have fields: "(\<lambda>r. (cl_tkl r, cl_sacks r, cl_int_count r)) ?row = (0, 0, ?sum)"
    by (simp add: career_def_leader_row_def def_tkl_value sk_sacks_value it_int_value
        regular_defense_none[OF assms(5)] regular_sacks_none[OF assms(6)] ints)
  show "map (\<lambda>r. (cl_tkl r, cl_sacks r, cl_int_count r))
           (filter (\<lambda>r. cl_player_id r = X) (career_def_universe d)) = [(0, 0, ?sum)]"
    unfolding row using fields by simp
  show "map (\<lambda>r. (cl_tkl r, cl_sacks r, cl_int_count r))
              (filter (\<lambda>r. cl_player_id r = X) (getCareerDefensiveLeaders lmt d)) = [(0, 0, ?sum)]"
    if "length (career_def_universe d) \<le> lmt"
  proof -
    have "filter (\<lambda>r. cl_player_id r = X) (getCareerDefensiveLeaders lmt d) = [?row]"
      using that row by (rule leaders_filter_unlimited)
    then show ?thesis using fields by simp
  qed
qed

text \<open>
  C7 (amended).  For every store and every limit, every row of the career defensive
  leaderboard belongs to a player who has a row in at least one of the three defensive
  tables.  Moreover, if player ids are a key of the players and game ids a key of the
  games, then a recognized player \<open>X\<close> present only in the interceptions table has exactly
  one row in the universe of the leaderboard, with \<open>tkl = 0\<close>, \<open>sacks = 0\<close> and
  \<open>int_count\<close> equal to the sum of the interceptions of \<open>X\<close>'s rows in regular-season
  games; and that is \<open>X\<close>'s one row in the leaderboard itself when the limit is not
  smaller than the universe.
\<close>

theorem C7_leaderboard_rows_from_union:
  "(\<forall>r\<in>set (getCareerDefensiveLeaders lmt d).
      cl_player_id r \<in> pd_player_id ` set (player_defense d) \<union> ps_player_id ` set (player_sacks d)
                         \<union> pi_player_id ` set (player_interceptions d))
   \<and> (distinct (map p_player_id (players d)) \<and> distinct (map g_game_id (games d))
        \<and> recognized d X
        \<and> X \<in> pi_player_id ` set (player_interceptions d)
        \<and> X \<notin> pd_player_id ` set (player_defense d)
        \<and> X \<notin> ps_player_id ` set (player_sacks d)
      \<longrightarrow>
        map (\<lambda>r. (cl_tkl r, cl_sacks r, cl_int_count r))
           (filter (\<lambda>r. cl_player_id r = X) (career_def_universe d))
         = [(0, 0, sum_list (map pi_int_count
                     (filter (\<lambda>i. pi_player_id i = X \<and> regular_game d (pi_game_id i))
                        (player_interceptions d))))]
        \<and> (length (career_def_universe d) \<le> lmt \<longrightarrow>
            map (\<lambda>r. (cl_tkl r, cl_sacks r, cl_int_count r))
              (filter (\<lambda>r. cl_player_id r = X) (getCareerDefensiveLeaders lmt d))
            = [(0, 0, sum_list (map pi_int_count
                     (filter (\<lambda>i. pi_player_id i = X \<and> regular_game d (pi_game_id i))
                        (player_interceptions d))))]))"
proof (intro conjI impI ballI)
  fix r assume "r \<in> set (getCareerDefensiveLeaders lmt d)"
  then have "r \<in> set (career_def_universe d)" using set_leaders_subset by blast
  then have "cl_player_id r \<in> set (all_def d)" by (rule universe_ids)
  then show "cl_player_id r \<in> pd_player_id ` set (player_defense d) \<union> ps_player_id ` set (player_sacks d)
                               \<union> pi_player_id ` set (player_interceptions d)"
    by (simp only: set_all_def)
next
  assume h: "distinct (map p_player_id (players d)) \<and> distinct (map g_game_id (games d))
        \<and> recognized d X
        \<and> X \<in> pi_player_id ` set (player_interceptions d)
        \<and> X \<notin> pd_player_id ` set (player_defense d)
        \<and> X \<notin> ps_player_id ` set (player_sacks d)"
  then show "map (\<lambda>r. (cl_tkl r, cl_sacks r, cl_int_count r))
           (filter (\<lambda>r. cl_player_id r = X) (career_def_universe d))
         = [(0, 0, sum_list (map pi_int_count
                     (filter (\<lambda>i. pi_player_id i = X \<and> regular_game d (pi_game_id i))
                        (player_interceptions d))))]"
    by (intro interception_only_row(1)) simp_all
  assume "length (career_def_universe d) \<le> lmt"
  with h show "map (\<lambda>r. (cl_tkl r, cl_sacks r, cl_int_count r))
              (filter (\<lambda>r. cl_player_id r = X) (getCareerDefensiveLeaders lmt d))
            = [(0, 0, sum_list (map pi_int_count
                     (filter (\<lambda>i. pi_player_id i = X \<and> regular_game d (pi_game_id i))
                        (player_interceptions d))))]"
    by (intro interception_only_row(2)) simp_all
qed

theorem C7_leaderboard_rows_from_union_witness:
  "distinct (map p_player_id (players db_int_only))
   \<and> distinct (map g_game_id (games db_int_only))
   \<and> recognized db_int_only ''Y''
   \<and> ''Y'' \<in> pi_player_id ` set (player_interceptions db_int_only)
   \<and> ''Y'' \<notin> pd_player_id ` set (player_defense db_int_only)
   \<and> ''Y'' \<notin> ps_player_id ` set (player_sacks db_int_only)
   \<and> length (career_def_universe db_int_only) \<le> 25
   \<and> map cl_player_id (getCareerDefensiveLeaders 25 db_int_only) = [''Y'']
   \<and> ''Y'' \<in> pd_player_id ` set (player_defense db_int_only)
               \<union> ps_player_id ` set (player_sacks db_int_only)
               \<union> pi_player_id ` set (player_interceptions db_int_only)
   \<and> map (\<lambda>r. (cl_tkl r, cl_sacks r, cl_int_count r))
        (filter (\<lambda>r. cl_player_id r = ''Y'') (career_def_universe db_int_only)) = [(0, 0, 2)]
   \<and> map (\<lambda>r. (cl_tkl r, cl_sacks r, cl_int_count r))
        (filter (\<lambda>r. cl_player_id r = ''Y'') (getCareerDefensiveLeaders 25 db_int_only)) = [(0, 0, 2)]"
proof -
  have h1: "distinct (map p_player_id (players db_int_only))" by code_simp
  have h2: "distinct (map g_game_id (games db_int_only))" by code_simp
  have h3: "recognized db_int_only ''Y''" by code_simp
  have h4: "''Y'' \<in> pi_player_id ` set (player_interceptions db_int_only)" by code_simp
  have h5: "''Y'' \<notin> pd_player_id ` set (player_defense db_int_only)" by code_simp
  have h6: "''Y'' \<notin> ps_player_id ` set (player_sacks db_int_only)" by code_simp
  have h7: "length (career_def_universe db_int_only) \<le> 25" by code_simp
  have ids: "map cl_player_id (getCareerDefensiveLeaders 25 db_int_only) = [''Y'']" by code_simp
  have v: "sum_list (map pi_int_count (filter (\<lambda>i. pi_player_id i = ''Y''
              \<and> regular_game db_int_only (pi_game_id i)) (player_interceptions db_int_only))) = 2"
    by code_simp
  from C7_leaderboard_rows_from_union[of 25 db_int_only "''Y''"] v h1 h2 h3 h4 h5 h6 h7 ids
  show ?thesis by simp
qed

text \<open>
  C8.  A request whose category is not one of passing, rushing, receiving, defense should
  be rejected with the 400 response.  The route looks the category up with
  \<open>fetchers[scope]?.[category]\<close> on object literals, which also finds the names
  inherited from \<open>Object.prototype\<close>: for \<open>scope=career&category=constructor\<close> the value
  is the inherited \<open>constructor\<close>, the guard \<open>!fetcher\<close> does not fire, and the route
  calls that value instead of answering 400.  (No query is run on this path either.)  A
  name that is neither a category nor inherited, such as \<open>kicking\<close>, is rejected.
\<close>

theorem C8_inherited_category_not_rejected:
  "GET builtin_truthy nulls_low
     \<lparr> scope_param = Some ''career'', category_param = Some ''constructor'',
       gameType_param = gt \<rparr> d
   = CalledBuiltin ''constructor''
   \<and> GET builtin_truthy nulls_low
     \<lparr> scope_param = Some ''career'', category_param = Some ''kicking'',
       gameType_param = gt \<rparr> d
   = Json400 ''Invalid scope or category''"
  by (simp add: GET_def lookup_fetcher_def obj_get_def fetchers_def
      object_prototype_keys_def Let_def)




text \<open>
  C10.  The directory search should annotate a player with the minimum and the maximum
  season over the passing, rushing and receiving appearances.  Each bound is taken as the
  first row of the three per-table bounds sorted (\<open>ORDER BY 1 LIMIT 1\<close>), and a table in
  which the player has no row contributes \<open>NULL\<close>, which sorts at one end.  For a player
  whose only appearance is a rushing row of 1999: where \<open>NULL\<close> sorts low,
  \<open>first_season\<close> is \<open>NULL\<close>; where \<open>NULL\<close> sorts high, \<open>last_season\<close> is \<open>NULL\<close>.  In
  neither case are both bounds 1999.
\<close>

theorem C10_search_season_bound_is_null:
  "searchPlayers True ''pa'' 50 db_search =
     [\<lparr> ph_player_id = ''P'', ph_player_name = ''Pat'', ph_position = None,
        ph_first_season = None, ph_last_season = Some 1999 \<rparr>]
   \<and> searchPlayers False ''pa'' 50 db_search =
     [\<lparr> ph_player_id = ''P'', ph_player_name = ''Pat'', ph_position = None,
        ph_first_season = Some 1999, ph_last_season = None \<rparr>]"
  by code_simp

end
